theory Spec2Isabelle
  imports Complex_Main "HOL-Library.Multiset" "HOL-Library.Product_Lexorder"
begin

section \<open>JavaScript numbers\<close>

text \<open>
  A JavaScript number is a finite value, one of the two infinities, or NaN. The
  operations of this section are exact on finite values; the next section rounds a
  result to the nearest double. Calibration, the engine's setters and the camera update
  use the exact operations; frame counts, the numbers read from file names and the
  source rectangle of a capture use the rounded ones. The sign of zero is not modelled
  (a zero divisor counts as +0). Division by zero, arithmetic on infinities and
  comparisons with NaN follow the language.
\<close>

datatype jsnum = Fin real | PInf | NInf | NaN

definition inf_of_sign :: "real \<Rightarrow> jsnum" where
  "inf_of_sign s = (if 0 < s then PInf else if s < 0 then NInf else NaN)"

fun jsneg :: "jsnum \<Rightarrow> jsnum" where
  "jsneg (Fin a) = Fin (- a)"
| "jsneg PInf = NInf"
| "jsneg NInf = PInf"
| "jsneg NaN = NaN"

fun jsadd :: "jsnum \<Rightarrow> jsnum \<Rightarrow> jsnum" where
  "jsadd (Fin a) (Fin b) = Fin (a + b)"
| "jsadd (Fin a) PInf = PInf"
| "jsadd (Fin a) NInf = NInf"
| "jsadd PInf (Fin b) = PInf"
| "jsadd PInf PInf = PInf"
| "jsadd PInf NInf = NaN"
| "jsadd NInf (Fin b) = NInf"
| "jsadd NInf NInf = NInf"
| "jsadd NInf PInf = NaN"
| "jsadd NaN y = NaN"
| "jsadd x NaN = NaN"

definition jssub :: "jsnum \<Rightarrow> jsnum \<Rightarrow> jsnum" where
  "jssub x y = jsadd x (jsneg y)"

fun jsmul :: "jsnum \<Rightarrow> jsnum \<Rightarrow> jsnum" where
  "jsmul (Fin a) (Fin b) = Fin (a * b)"
| "jsmul (Fin a) PInf = inf_of_sign a"
| "jsmul (Fin a) NInf = inf_of_sign (- a)"
| "jsmul PInf (Fin b) = inf_of_sign b"
| "jsmul NInf (Fin b) = inf_of_sign (- b)"
| "jsmul PInf PInf = PInf"
| "jsmul PInf NInf = NInf"
| "jsmul NInf PInf = NInf"
| "jsmul NInf NInf = PInf"
| "jsmul NaN y = NaN"
| "jsmul x NaN = NaN"

fun jsdiv :: "jsnum \<Rightarrow> jsnum \<Rightarrow> jsnum" where
  "jsdiv (Fin a) (Fin b) = (if b = 0 then inf_of_sign a else Fin (a / b))"
| "jsdiv (Fin a) PInf = Fin 0"
| "jsdiv (Fin a) NInf = Fin 0"
| "jsdiv PInf (Fin b) = (if 0 \<le> b then PInf else NInf)"
| "jsdiv NInf (Fin b) = (if 0 \<le> b then NInf else PInf)"
| "jsdiv PInf PInf = NaN"
| "jsdiv PInf NInf = NaN"
| "jsdiv NInf PInf = NaN"
| "jsdiv NInf NInf = NaN"
| "jsdiv NaN y = NaN"
| "jsdiv x NaN = NaN"

fun jsabs :: "jsnum \<Rightarrow> jsnum" where
  "jsabs (Fin a) = Fin \<bar>a\<bar>"
| "jsabs PInf = PInf"
| "jsabs NInf = PInf"
| "jsabs NaN = NaN"

text \<open>\<open>a > b\<close>; every comparison with NaN is false.\<close>

fun jsgt :: "jsnum \<Rightarrow> jsnum \<Rightarrow> bool" where
  "jsgt (Fin a) (Fin b) = (b < a)"
| "jsgt (Fin a) NInf = True"
| "jsgt PInf (Fin b) = True"
| "jsgt PInf NInf = True"
| "jsgt x y = False"

definition jslt :: "jsnum \<Rightarrow> jsnum \<Rightarrow> bool" where
  "jslt x y = jsgt y x"

text \<open>\<open>a <= b\<close> and \<open>a >= b\<close>.\<close>

definition jsle :: "jsnum \<Rightarrow> jsnum \<Rightarrow> bool" where
  "jsle x y = (x \<noteq> NaN \<and> y \<noteq> NaN \<and> \<not> jsgt x y)"

definition jsge :: "jsnum \<Rightarrow> jsnum \<Rightarrow> bool" where
  "jsge x y = jsle y x"

text \<open>\<open>Math.min\<close> and \<open>Math.max\<close> of two numbers: NaN when either is NaN.\<close>

fun jsmin :: "jsnum \<Rightarrow> jsnum \<Rightarrow> jsnum" where
  "jsmin NaN y = NaN"
| "jsmin x NaN = NaN"
| "jsmin x y = (if jsgt x y then y else x)"

fun jsmax :: "jsnum \<Rightarrow> jsnum \<Rightarrow> jsnum" where
  "jsmax NaN y = NaN"
| "jsmax x NaN = NaN"
| "jsmax x y = (if jsgt y x then y else x)"

text \<open>
  \<open>Math.floor\<close>, and \<open>Math.round\<close>, which rounds halves upwards. Both are exact:
  a double of magnitude \<open>2\<^sup>5\<^sup>2\<close> or more is an integer already, and below that
  every integer is a double.
\<close>

fun jsfloor :: "jsnum \<Rightarrow> jsnum" where
  "jsfloor (Fin a) = Fin (of_int \<lfloor>a\<rfloor>)"
| "jsfloor x = x"

fun jsround :: "jsnum \<Rightarrow> jsnum" where
  "jsround (Fin a) = Fin (of_int \<lfloor>a + 1 / 2\<rfloor>)"
| "jsround x = x"

type_synonym vec3 = "jsnum \<times> jsnum \<times> jsnum"

section \<open>Double precision\<close>

text \<open>
  The finite numbers of the language are the IEEE 754 binary64 values. The binade of a
  positive real \<open>a\<close> is the exponent \<open>e\<close> between \<open>-1022\<close> and \<open>1023\<close> with
  \<open>2\<^sup>e \<le> a < 2\<^sup>e\<^sup>+\<^sup>1\<close>, or \<open>-1022\<close> for the subnormal range below, together with the power
  \<open>2\<^sup>e\<close>; it is found by doubling or halving from 1.
\<close>

function binadeUp :: "real \<Rightarrow> int \<Rightarrow> real \<Rightarrow> int \<times> real" where
  "binadeUp a e p = (if e < 1024 \<and> 2 * p \<le> a then binadeUp a (e + 1) (2 * p) else (e, p))"
  by pat_completeness auto
termination
  by (relation "measure (\<lambda>(a, e, p). nat (1024 - e))") auto

function binadeDown :: "real \<Rightarrow> int \<Rightarrow> real \<Rightarrow> int \<times> real" where
  "binadeDown a e p = (if - 1022 < e \<and> a < p then binadeDown a (e - 1) (p / 2) else (e, p))"
  by pat_completeness auto
termination
  by (relation "measure (\<lambda>(a, e, p). nat (e + 1022))") auto

declare binadeUp.simps [simp del]
declare binadeDown.simps [simp del]

definition binade :: "real \<Rightarrow> int \<times> real" where
  "binade a = (if 1 \<le> a then binadeUp a 0 1 else binadeDown a 0 1)"

text \<open>Rounding to the nearest integer, a tie to the even one.\<close>

definition roundHalfEven :: "real \<Rightarrow> int" where
  "roundHalfEven q =
     (let f = \<lfloor>q\<rfloor>; r = q - of_int f
      in if r < 1 / 2 then f else if 1 / 2 < r then f + 1 else if even f then f else f + 1)"

text \<open>
  The spacing of the doubles in the binade of \<open>a\<close> (53 significant bits), and the
  multiple of that spacing nearest to \<open>a\<close>.
\<close>

definition ulp :: "real \<Rightarrow> real" where
  "ulp a = snd (binade a) / 2 ^ 52"

definition nearest :: "real \<Rightarrow> real" where
  "nearest a = of_int (roundHalfEven (a / ulp a)) * ulp a"

text \<open>
  The number that a real result becomes: the nearest double, ties to even; an infinity
  when the magnitude rounds to \<open>2\<^sup>1\<^sup>0\<^sup>2\<^sup>4\<close>.
\<close>

definition to_double :: "real \<Rightarrow> jsnum" where
  "to_double x =
     (if x = 0 then Fin 0
      else if 2 ^ 1024 \<le> nearest \<bar>x\<bar> then (if 0 < x then PInf else NInf)
      else Fin (if 0 < x then nearest \<bar>x\<bar> else - nearest \<bar>x\<bar>))"

fun rounded :: "jsnum \<Rightarrow> jsnum" where
  "rounded (Fin a) = to_double a"
| "rounded x = x"

text \<open>The arithmetic operators as the language computes them: the exact result, rounded.\<close>

definition dadd :: "jsnum \<Rightarrow> jsnum \<Rightarrow> jsnum" where
  "dadd x y = rounded (jsadd x y)"

definition dsub :: "jsnum \<Rightarrow> jsnum \<Rightarrow> jsnum" where
  "dsub x y = rounded (jssub x y)"

definition dmul :: "jsnum \<Rightarrow> jsnum \<Rightarrow> jsnum" where
  "dmul x y = rounded (jsmul x y)"

definition ddiv :: "jsnum \<Rightarrow> jsnum \<Rightarrow> jsnum" where
  "ddiv x y = rounded (jsdiv x y)"

section \<open>Strings and notifications\<close>

text \<open>Decimal text of a number, as template literals and \<open>toString\<close> produce it.\<close>

definition digit_char :: "nat \<Rightarrow> char" where
  "digit_char d = char_of (48 + d)"

function show_nat :: "nat \<Rightarrow> string" where
  "show_nat n = (if n < 10 then [digit_char n] else show_nat (n div 10) @ [digit_char (n mod 10)])"
  by pat_completeness auto
termination
  by (relation "measure (\<lambda>n. n)") auto

declare show_nat.simps [simp del]

definition show_int :: "int \<Rightarrow> string" where
  "show_int i = (if i < 0 then CHR ''-'' # show_nat (nat (- i)) else show_nat (nat i))"

text \<open>\<open>s.padStart(4, '0')\<close>.\<close>

definition padStart4 :: "string \<Rightarrow> string" where
  "padStart4 s = replicate (4 - length s) CHR ''0'' @ s"

text \<open>A toast: title, description, and whether it is shown as an error.\<close>

record toast =
  toast_title :: string
  toast_description :: string
  toast_destructive :: bool

datatype js_error = TypeError string | Error string | LoadEvent

text \<open>
  \<open>error.message\<close>. An image that fails to load rejects its promise with the event,
  which has no message: the property is \<open>undefined\<close>, written \<open>None\<close>. A template
  literal prints an undefined value as the word \<open>undefined\<close>.
\<close>

fun message :: "js_error \<Rightarrow> string option" where
  "message (TypeError m) = Some m"
| "message (Error m) = Some m"
| "message LoadEvent = None"

definition messageText :: "js_error \<Rightarrow> string" where
  "messageText e = (case message e of None \<Rightarrow> ''undefined'' | Some m \<Rightarrow> m)"

text \<open>
  What an awaited call can do: return a value, raise, or never settle.
\<close>

datatype 'a outcome = Returned 'a | Threw js_error | Pending


section \<open>The live viewport\<close>

text \<open>
  The objects of the rendering engine that the hooks reach through the page's canvas
  element. The engine itself is an external collaborator; what follows is its interface
  as the hooks use it.
\<close>

record renderer =
  r_size :: "jsnum \<times> jsnum"
  r_pixelRatio :: jsnum
  r_clearColor :: "jsnum \<times> jsnum \<times> jsnum"
  r_clearAlpha :: jsnum
  r_domElement :: "jsnum \<times> jsnum"

text \<open>The container named \<open>importedModel\<close>: uniform scale vector, height, yaw.\<close>

record container =
  cont_scale :: vec3
  cont_positionY :: jsnum
  cont_rotationY :: jsnum

record scene =
  scene_background :: "nat option"
  scene_importedModel :: "container option"

datatype projection =
    Perspective (p_fov: jsnum) (p_aspect: jsnum) (p_near: jsnum) (p_far: jsnum)
  | Orthographic (o_left: jsnum) (o_right: jsnum) (o_top: jsnum) (o_bottom: jsnum)
      (o_near: jsnum) (o_far: jsnum)
  | OtherCamera

record camera =
  cam_position :: vec3
  cam_rotation :: vec3
  cam_zoom :: "jsnum option"
  cam_projection :: projection

text \<open>\<open>canvas.__r3f.fiber\<close>: renderer, scene and camera of the viewport.\<close>

record fiber =
  fib_renderer :: renderer
  fib_scene :: scene
  fib_camera :: camera

text \<open>
  The post-processing chain: its size, its pixel ratio and, for each pass, the size of
  the pass when the pass has a \<open>setSize\<close> method, \<open>None\<close> when it has none.
\<close>

record composer =
  comp_size :: "jsnum \<times> jsnum"
  comp_pixelRatio :: jsnum
  comp_passes :: "(jsnum \<times> jsnum) option list"

text \<open>
  The canvas element found by \<open>document.querySelector("canvas")\<close>, with the two
  properties the hooks read from it. \<open>None\<close> for the whole element means that the page
  has no canvas.
\<close>

record canvasEl =
  canvas_r3f :: "fiber option"
  canvas_effectComposer :: "composer option"

section \<open>The loaded model\<close>

text \<open>
  A loaded model exposes an optional scene root and an optional list of animation
  clips; a clip has a name and a duration in seconds, which is a number.
\<close>

record animClip =
  clip_name :: string
  clip_duration :: jsnum

text \<open>
  The world-space bounding box that the engine computes for the model's scene root, and
  the engine's \<open>getSize\<close>: the zero vector for an empty box (a maximum below the
  minimum on some axis), the difference of the corners otherwise.
\<close>

record box3 =
  box_min :: vec3
  box_max :: vec3

definition box_isEmpty :: "box3 \<Rightarrow> bool" where
  "box_isEmpty b =
     (case (box_min b, box_max b) of
        ((nx, ny, nz), (mx, my, mz)) \<Rightarrow> jslt mx nx \<or> jslt my ny \<or> jslt mz nz)"

definition box_getSize :: "box3 \<Rightarrow> vec3" where
  "box_getSize b =
     (if box_isEmpty b then (Fin 0, Fin 0, Fin 0)
      else (case (box_min b, box_max b) of
              ((nx, ny, nz), (mx, my, mz)) \<Rightarrow> (jssub mx nx, jssub my ny, jssub mz nz)))"

record gltfModel =
  model_scene :: "box3 option"
  model_animations :: "animClip list option"


section \<open>Calibration engine (useSafeModelCalibration.tsx)\<close>

record SafeModelCalibration =
  originalScale :: jsnum
  normalizedScale :: jsnum
  groundOffset :: jsnum
  frontFaceRotation :: jsnum
  isFrontFaceSet :: bool
  originalSize :: vec3
  targetHeight :: jsnum

text \<open>
  \<open>analyzeModel\<close>: null without a scene root; otherwise the scale is
  \<open>targetHeight / originalHeight\<close> when the height is positive and 1 when it is not,
  then capped at 20 and raised to 0.5.
\<close>

definition analyzeModel :: "gltfModel option \<Rightarrow> SafeModelCalibration option" where
  "analyzeModel model =
     (case model of
        None \<Rightarrow> None
      | Some m \<Rightarrow>
         (case model_scene m of
            None \<Rightarrow> None
          | Some box \<Rightarrow>
             (case box_getSize box of
                (sx, sy, sz) \<Rightarrow>
                  (let originalHeight = sy;
                       targetHeight = Fin (3 / 2);
                       normalizedScale0 =
                         (if jsgt originalHeight (Fin 0)
                          then jsdiv targetHeight originalHeight else Fin 1);
                       normalizedScale1 = jsmin normalizedScale0 (Fin 20);
                       normalizedScale2 = jsmax normalizedScale1 (Fin (1 / 2));
                       groundOffset = jsmul (jsneg (fst (snd (box_min box)))) normalizedScale2
                   in Some \<lparr>originalScale = Fin 1,
                            normalizedScale = normalizedScale2,
                            groundOffset = groundOffset,
                            frontFaceRotation = Fin 0,
                            isFrontFaceSet = False,
                            originalSize = (sx, sy, sz),
                            targetHeight = targetHeight\<rparr>))))"

record calibState =
  calibration :: "SafeModelCalibration option"
  isCalibrating :: bool

text \<open>
  \<open>applyCalibration\<close>. Without a canvas the property read raises a TypeError, which
  the function's own handler turns into \<open>false\<close>; without a scene or without the
  container it returns \<open>false\<close> at once. Only after the container has been updated is
  the calibration stored.
\<close>

definition applyCalibration ::
  "SafeModelCalibration \<Rightarrow> canvasEl option \<Rightarrow> calibState \<Rightarrow> bool \<times> canvasEl option \<times> calibState" where
  "applyCalibration newCalibration canvas st =
     (case canvas of
        None \<Rightarrow> (False, canvas, st)
      | Some cv \<Rightarrow>
         (case canvas_r3f cv of
            None \<Rightarrow> (False, canvas, st)
          | Some fib \<Rightarrow>
             (case scene_importedModel (fib_scene fib) of
                None \<Rightarrow> (False, canvas, st)
              | Some cont \<Rightarrow>
                 (let c1 = cont\<lparr>cont_scale := (normalizedScale newCalibration,
                                                normalizedScale newCalibration,
                                                normalizedScale newCalibration)\<rparr>;
                      c2 = c1\<lparr>cont_positionY := groundOffset newCalibration\<rparr>;
                      c3 = (if isFrontFaceSet newCalibration
                            then c2\<lparr>cont_rotationY := frontFaceRotation newCalibration\<rparr>
                            else c2);
                      fib' = fib\<lparr>fib_scene := (fib_scene fib)\<lparr>scene_importedModel := Some c3\<rparr>\<rparr>
                  in (True, Some (cv\<lparr>canvas_r3f := Some fib'\<rparr>),
                      st\<lparr>calibration := Some newCalibration\<rparr>)))))"


text \<open>The lookup that \<open>applyCalibration\<close> performs, on its own: canvas, scene, container.\<close>

definition locateContainer :: "canvasEl option \<Rightarrow> container option" where
  "locateContainer canvas =
     (case canvas of
        None \<Rightarrow> None
      | Some cv \<Rightarrow> (case canvas_r3f cv of
                     None \<Rightarrow> None
                   | Some fib \<Rightarrow> scene_importedModel (fib_scene fib)))"


section \<open>Animation frame mapper (useAnimation)\<close>

record animState =
  anim_isPlaying :: bool
  anim_currentAnimation :: "string option"
  anim_animations :: "string list"
  anim_currentFrame :: jsnum
  anim_totalFrames :: jsnum

text \<open>
  The effect that runs when the model or the current animation changes. A missing
  model, a missing clip list, or a null or empty animation name resets both counters;
  otherwise the first clip of that name is looked up and, when there is one, the frame
  count is \<open>Math.floor(duration * 30)\<close>, the floor of the rounded product, and the
  current frame is reset to 0. When no clip has that name the state is left as it is.
\<close>

definition truthy_name :: "string option \<Rightarrow> bool" where
  "truthy_name n = (case n of None \<Rightarrow> False | Some s \<Rightarrow> s \<noteq> [])"





definition nextFrame :: "animState \<Rightarrow> animState" where
  "nextFrame st =
     st\<lparr>anim_currentFrame :=
          (if jsge (anim_currentFrame st) (dsub (anim_totalFrames st) (Fin 1)) then Fin 0
           else dadd (anim_currentFrame st) (Fin 1))\<rparr>"


section \<open>Frame editor (useFrameEditor.tsx)\<close>

text \<open>
  The editor keeps a list of frames. A frame is the object built at ingestion:
  identifier, file name, raster data, the enable flag and the decoded image's
  pixel dimensions.
\<close>

record frame =
  frame_id :: string
  frame_filename :: string
  frame_data :: string
  frame_enabled :: bool
  frame_width :: nat
  frame_height :: nat

text \<open>
  \<open>toggleFrame(index)\<close> copies the list and replaces the element at \<open>index\<close> by a
  copy whose \<open>enabled\<close> is negated. Outside the list \<open>newFrames[index]\<close> is
  \<open>undefined\<close> and reading its \<open>enabled\<close> raises a TypeError.
\<close>

definition toggleFrame :: "frame list \<Rightarrow> int \<Rightarrow> js_error + frame list" where
  "toggleFrame prev index =
     (if 0 \<le> index \<and> index < int (length prev)
      then (let newFrames = prev;
                old = newFrames ! nat index
            in Inr (newFrames[nat index := old\<lparr>frame_enabled := \<not> frame_enabled old\<rparr>]))
      else Inl (TypeError ''Cannot read properties of undefined (reading 'enabled')''))"

definition getActiveFrames :: "frame list \<Rightarrow> frame list" where
  "getActiveFrames frames = filter frame_enabled frames"

subsection \<open>Ordering the files of a folder\<close>

text \<open>
  \<open>toLowerCase\<close> on the letters A to Z, \<open>endsWith\<close>, and the first match of
  \<open>/\d+/\<close>: the first maximal run of decimal digits, empty when the name has none.
\<close>

definition lower_char :: "char \<Rightarrow> char" where
  "lower_char c = (let n = (of_char c :: nat) in if 65 \<le> n \<and> n \<le> 90 then char_of (n + 32) else c)"

definition toLowerCase :: "string \<Rightarrow> string" where
  "toLowerCase s = map lower_char s"

definition endsWith :: "string \<Rightarrow> string \<Rightarrow> bool" where
  "endsWith s suf = (length suf \<le> length s \<and> drop (length s - length suf) s = suf)"

definition isDigit :: "char \<Rightarrow> bool" where
  "isDigit c = (48 \<le> (of_char c :: nat) \<and> (of_char c :: nat) \<le> 57)"

definition firstDigits :: "string \<Rightarrow> string" where
  "firstDigits s = takeWhile isDigit (dropWhile (\<lambda>c. \<not> isDigit c) s)"

text \<open>
  The integer that a run of decimal digits denotes, and \<open>parseInt\<close> of such a run: the
  double nearest to that integer, \<open>Infinity\<close> for a run too long for a double.
\<close>

definition digitsValue :: "string \<Rightarrow> nat" where
  "digitsValue ds = foldl (\<lambda>acc c. acc * 10 + ((of_char c :: nat) - 48)) 0 ds"

definition parseInt :: "string \<Rightarrow> jsnum" where
  "parseInt ds = to_double (real (digitsValue ds))"

text \<open>The number of a file name: \<open>parseInt\<close> of its first run of digits, 0 without one.\<close>

definition frameNumber :: "string \<Rightarrow> jsnum" where
  "frameNumber a = (let aMatch = firstDigits a in if aMatch = [] then Fin 0 else parseInt aMatch)"

text \<open>The comparator of the sort: \<open>aNum - bNum\<close>.\<close>

definition compareFrames :: "string \<Rightarrow> string \<Rightarrow> jsnum" where
  "compareFrames a b =
     (let aNum = frameNumber a;
          bNum = frameNumber b
      in dsub aNum bNum)"

definition isPng :: "string \<Rightarrow> bool" where
  "isPng f = endsWith (toLowerCase f) ''.png''"

text \<open>
  \<open>Array.prototype.sort\<close> with a comparator is stable: an element moves behind another
  one only when the comparator of the two is positive, and a comparator value of NaN
  counts as 0. It is modelled by stable insertion from the right.
\<close>

fun insertBy :: "('a \<Rightarrow> 'a \<Rightarrow> jsnum) \<Rightarrow> 'a \<Rightarrow> 'a list \<Rightarrow> 'a list" where
  "insertBy cmp x [] = [x]"
| "insertBy cmp x (y # ys) =
     (if jsgt (cmp x y) (Fin 0) then y # insertBy cmp x ys else x # y # ys)"

definition sortBy :: "('a \<Rightarrow> 'a \<Rightarrow> jsnum) \<Rightarrow> 'a list \<Rightarrow> 'a list" where
  "sortBy cmp xs = foldr (insertBy cmp) xs []"

text \<open>The files that ingestion loads, in order: the PNG files of the listing, sorted.\<close>

definition imageFiles :: "string list \<Rightarrow> string list" where
  "imageFiles files = sortBy compareFrames (filter isPng files)"

text \<open>
  Two measures of a file name, to state the order that results. The first places the
  file's number on the line of the doubles, with \<open>Infinity\<close> above every finite one.
  The second is the first integer embedded in the name as the reader sees it, with no
  rounding, and 0 for a name without digits.
\<close>

definition frameKey :: "string \<Rightarrow> bool \<times> real" where
  "frameKey a = (case frameNumber a of Fin r \<Rightarrow> (False, r) | _ \<Rightarrow> (True, 0))"

definition embeddedInteger :: "string \<Rightarrow> nat" where
  "embeddedInteger a = (let aMatch = firstDigits a in if aMatch = [] then 0 else digitsValue aMatch)"

subsection \<open>The editor's sprite sheet\<close>

text \<open>
  A sheet canvas: its pixel size and the images drawn on it, each with the position and
  size of its destination rectangle.
\<close>

record 'img sheetCanvas =
  sheet_width :: nat
  sheet_height :: nat
  sheet_draws :: "('img \<times> nat \<times> nat \<times> nat \<times> nat) list"




section \<open>Render capture (useExport.tsx)\<close>

subsection \<open>The engine's setters\<close>

text \<open>
  \<open>renderer.setSize(w, h, false)\<close> stores the logical size and gives the canvas the
  size scaled by the pixel ratio and floored; \<open>setPixelRatio\<close> stores the ratio and
  sizes the canvas again; \<open>setClearColor\<close> stores colour and alpha. (The conversion of
  a canvas dimension to an unsigned integer is not modelled.)
\<close>

definition setSize :: "jsnum \<Rightarrow> jsnum \<Rightarrow> renderer \<Rightarrow> renderer" where
  "setSize w h r =
     r\<lparr>r_size := (w, h),
       r_domElement := (jsfloor (jsmul w (r_pixelRatio r)), jsfloor (jsmul h (r_pixelRatio r)))\<rparr>"

definition setPixelRatio :: "jsnum \<Rightarrow> renderer \<Rightarrow> renderer" where
  "setPixelRatio v r = setSize (fst (r_size r)) (snd (r_size r)) (r\<lparr>r_pixelRatio := v\<rparr>)"

definition setClearColor :: "jsnum \<times> jsnum \<times> jsnum \<Rightarrow> jsnum \<Rightarrow> renderer \<Rightarrow> renderer" where
  "setClearColor c a r = r\<lparr>r_clearColor := c, r_clearAlpha := a\<rparr>"

text \<open>
  The engine's \<open>composer.setSize(w, h)\<close> stores the size and calls \<open>setSize\<close> on each
  pass in turn with the size scaled by the composer's pixel ratio. On a pass without
  the method the call raises a TypeError; the passes before it have been resized by
  then. The boolean tells whether the loop came to its end. (The composer's render
  targets are not modelled.)
\<close>

fun passesSetSize ::
  "jsnum \<times> jsnum \<Rightarrow> (jsnum \<times> jsnum) option list \<Rightarrow> (jsnum \<times> jsnum) option list \<times> bool" where
  "passesSetSize sz [] = ([], True)"
| "passesSetSize sz (None # passes) = (None # passes, False)"
| "passesSetSize sz (Some old # passes) =
     (case passesSetSize sz passes of (passes', done) \<Rightarrow> (Some sz # passes', done))"

definition composerSetSize :: "jsnum \<times> jsnum \<Rightarrow> composer \<Rightarrow> composer \<times> bool" where
  "composerSetSize sz c =
     (let effective = (jsmul (fst sz) (comp_pixelRatio c), jsmul (snd sz) (comp_pixelRatio c))
      in case passesSetSize effective (comp_passes c) of
           (passes', done) \<Rightarrow> (c\<lparr>comp_size := sz, comp_passes := passes'\<rparr>, done))"

text \<open>
  What \<open>renderFrame\<close> does with a composer, in the \<open>try\<close> block and again in the
  \<open>finally\<close> block: \<open>composer.setSize\<close>, then \<open>setSize\<close> with the unscaled size on
  every pass that has the method. The second step is reached only when the first did
  not raise.
\<close>

definition resizeComposer :: "jsnum \<times> jsnum \<Rightarrow> composer \<Rightarrow> composer \<times> bool" where
  "resizeComposer sz c =
     (case composerSetSize sz c of
        (c1, done) \<Rightarrow>
          if \<not> done then (c1, False)
          else (c1\<lparr>comp_passes := map (map_option (\<lambda>old. sz)) (comp_passes c1)\<rparr>, True))"

definition passError :: js_error where
  "passError = TypeError ''this.passes[i].setSize is not a function''"

subsection \<open>Snapshot, capture, restore\<close>

text \<open>
  The values \<open>renderFrame\<close> stores before it touches anything. The projection is kept
  whole: for a perspective camera it holds aspect, fov, far and near, for an
  orthographic one left, right, top, bottom, far and near, and nothing for any other
  camera.
\<close>

record snapshot =
  originalRendererSize :: "jsnum \<times> jsnum"
  originalClearColor :: "jsnum \<times> jsnum \<times> jsnum"
  originalClearAlpha :: jsnum
  originalBackgroundColor :: "nat option"
  originalPixelRatio :: jsnum
  originalCameraPosition :: vec3
  originalCameraRotation :: vec3
  originalCameraZoom :: "jsnum option"
  originalCameraProjection :: projection

definition takeSnapshot :: "fiber \<Rightarrow> snapshot" where
  "takeSnapshot f =
     \<lparr>originalRendererSize = r_size (fib_renderer f),
      originalClearColor = r_clearColor (fib_renderer f),
      originalClearAlpha = r_clearAlpha (fib_renderer f),
      originalBackgroundColor = scene_background (fib_scene f),
      originalPixelRatio = r_pixelRatio (fib_renderer f),
      originalCameraPosition = cam_position (fib_camera f),
      originalCameraRotation = cam_rotation (fib_camera f),
      originalCameraZoom = cam_zoom (fib_camera f),
      originalCameraProjection = cam_projection (fib_camera f)\<rparr>"

text \<open>
  Matching the camera to the export aspect ratio: a perspective camera takes the ratio
  as its aspect; an orthographic one keeps its height and widens or narrows
  symmetrically; any other camera is left alone.
\<close>

definition updateCameraAspect :: "jsnum \<Rightarrow> camera \<Rightarrow> camera" where
  "updateCameraAspect aspectRatio cam =
     (case cam_projection cam of
        Perspective fov aspect near far \<Rightarrow>
          cam\<lparr>cam_projection := Perspective fov aspectRatio near far\<rparr>
      | Orthographic cleft cright ctop cbottom near far \<Rightarrow>
          (let currentHeight = jssub ctop cbottom;
               currentWidth = jssub cright cleft;
               newWidth = jsmul currentHeight aspectRatio;
               widthDiff = jssub newWidth currentWidth
           in cam\<lparr>cam_projection :=
                    Orthographic (jssub cleft (jsdiv widthDiff (Fin 2)))
                                 (jsadd cright (jsdiv widthDiff (Fin 2))) ctop cbottom near far\<rparr>)
      | OtherCamera \<Rightarrow> cam)"

text \<open>The first statements of the \<open>try\<close> block, up to the camera update.\<close>

definition prepareCapture :: "nat \<Rightarrow> nat \<Rightarrow> fiber \<Rightarrow> fiber" where
  "prepareCapture width height f =
     (let r1 = setSize (Fin (real width)) (Fin (real height)) (fib_renderer f);
          r2 = setPixelRatio (Fin 1) r1;
          r3 = setClearColor (Fin 0, Fin 0, Fin 0) (Fin 0) r2;
          sc = (fib_scene f)\<lparr>scene_background := None\<rparr>;
          aspectRatio = jsdiv (Fin (real width)) (Fin (real height));
          cam = updateCameraAspect aspectRatio (fib_camera f)
      in f\<lparr>fib_renderer := r3, fib_scene := sc, fib_camera := cam\<rparr>)"

text \<open>
  The source rectangle of the copy. When the aspect ratio of the renderer's canvas
  differs from the target's by more than 0.01, the rectangle is narrowed and centred
  along the axis on which the canvas is too large; otherwise it is the whole canvas.
  Quotients, products and differences are rounded to doubles, and the literal 0.01 is
  the double nearest to one hundredth.
\<close>

record rect =
  rect_x :: jsnum
  rect_y :: jsnum
  rect_width :: jsnum
  rect_height :: jsnum

definition sourceRect :: "jsnum \<times> jsnum \<Rightarrow> nat \<Rightarrow> nat \<Rightarrow> rect" where
  "sourceRect rendererCanvas width height =
     (let canvasWidth = fst rendererCanvas;
          canvasHeight = snd rendererCanvas;
          rendererAspect = ddiv canvasWidth canvasHeight;
          targetAspect = ddiv (Fin (real width)) (Fin (real height))
      in if jsgt (jsabs (dsub rendererAspect targetAspect)) (to_double (1 / 100))
         then (if jsgt rendererAspect targetAspect
               then (let sourceWidth = jsround (dmul canvasHeight targetAspect);
                         sourceX = jsround (ddiv (dsub canvasWidth sourceWidth) (Fin 2))
                     in \<lparr>rect_x = sourceX, rect_y = Fin 0,
                         rect_width = sourceWidth, rect_height = canvasHeight\<rparr>)
               else (let sourceHeight = jsround (ddiv canvasWidth targetAspect);
                         sourceY = jsround (ddiv (dsub canvasHeight sourceHeight) (Fin 2))
                     in \<lparr>rect_x = Fin 0, rect_y = sourceY,
                         rect_width = canvasWidth, rect_height = sourceHeight\<rparr>))
         else \<lparr>rect_x = Fin 0, rect_y = Fin 0,
               rect_width = canvasWidth, rect_height = canvasHeight\<rparr>)"

text \<open>
  The raster that \<open>renderFrame\<close> returns: the export canvas, created with the requested
  width and height, onto which the source rectangle of the renderer's canvas was drawn.
\<close>

record raster =
  raster_width :: nat
  raster_height :: nat
  raster_source :: rect

text \<open>
  The rest of the \<open>try\<close> block. Reading \<open>__effectComposer\<close> from a missing canvas
  raises a TypeError. With a composer the composer and its passes are resized and
  rendered, without one the renderer draws the scene; resizing a composer that holds a
  pass without \<open>setSize\<close> raises. A missing 2D context raises.
  The data URL is then verified by loading it into an image; the promise of that check
  resolves on load only, so when the image does not load the call never settles.
\<close>

definition captureBody ::
  "nat \<Rightarrow> nat \<Rightarrow> bool \<Rightarrow> bool \<Rightarrow> fiber \<Rightarrow> canvasEl option \<Rightarrow> raster outcome \<times> canvasEl option" where
  "captureBody width height ctx2d imageLoads f canvas =
     (case canvas of
        None \<Rightarrow> (Threw (TypeError ''Cannot read properties of null (reading '__effectComposer')''), canvas)
      | Some cv \<Rightarrow>
         (let resized = (case canvas_effectComposer cv of
                           Some composer \<Rightarrow>
                             (case resizeComposer (Fin (real width), Fin (real height)) composer of
                                (composer', done) \<Rightarrow>
                                  (cv\<lparr>canvas_effectComposer := Some composer'\<rparr>, done))
                         | None \<Rightarrow> (cv, True));
              cv1 = fst resized
          in if \<not> snd resized then (Threw passError, Some cv1)
             else if \<not> ctx2d
             then (Threw (Error ''Could not get 2D context for export canvas''), Some cv1)
             else (let exportCanvas =
                         \<lparr>raster_width = width, raster_height = height,
                          raster_source = sourceRect (r_domElement (fib_renderer f)) width height\<rparr>
                   in if imageLoads then (Returned exportCanvas, Some cv1)
                      else (Pending, Some cv1))))"

text \<open>
  The \<open>finally\<close> block: renderer size, clear colour and alpha, pixel ratio, scene
  background, camera position, rotation and zoom, and the stored projection parameters
  of a perspective or orthographic camera.
\<close>

definition restoreProjection :: "projection \<Rightarrow> projection \<Rightarrow> projection" where
  "restoreProjection original current =
     (case (current, original) of
        (Perspective fov aspect near far, Perspective fov0 aspect0 near0 far0) \<Rightarrow>
          Perspective fov0 aspect0 near0 far0
      | (Orthographic l r t b n f, Orthographic l0 r0 t0 b0 n0 f0) \<Rightarrow>
          Orthographic l0 r0 t0 b0 n0 f0
      | _ \<Rightarrow> current)"

definition restoreFiber :: "snapshot \<Rightarrow> fiber \<Rightarrow> fiber" where
  "restoreFiber snap f =
     (let r1 = setSize (fst (originalRendererSize snap)) (snd (originalRendererSize snap)) (fib_renderer f);
          r2 = setClearColor (originalClearColor snap) (originalClearAlpha snap) r1;
          r3 = setPixelRatio (originalPixelRatio snap) r2;
          sc = (fib_scene f)\<lparr>scene_background := originalBackgroundColor snap\<rparr>;
          cam = (fib_camera f)\<lparr>cam_position := originalCameraPosition snap,
                                cam_rotation := originalCameraRotation snap,
                                cam_zoom := originalCameraZoom snap\<rparr>;
          cam' = cam\<lparr>cam_projection :=
                       restoreProjection (originalCameraProjection snap) (cam_projection cam)\<rparr>
      in f\<lparr>fib_renderer := r3, fib_scene := sc, fib_camera := cam'\<rparr>)"

text \<open>
  \<open>renderFrame(frameIndex, scene, camera, renderer)\<close> for the hook's \<open>width\<close> and
  \<open>height\<close>. The three objects are the fiber; the canvas is looked up in the page.
  When the \<open>try\<close> block returns or raises, the \<open>finally\<close> block runs; its own canvas
  lookup raises again when there is no canvas, and so does its resizing of a composer
  that holds a pass without \<open>setSize\<close>. What the \<open>finally\<close> block raises replaces the
  outcome of the \<open>try\<close> block. When the block never settles, the \<open>finally\<close> block
  does not run.
\<close>

definition renderFrame ::
  "nat \<Rightarrow> nat \<Rightarrow> bool \<Rightarrow> bool \<Rightarrow> int \<Rightarrow> fiber \<Rightarrow> canvasEl option
     \<Rightarrow> raster outcome \<times> fiber \<times> canvasEl option" where
  "renderFrame width height ctx2d imageLoads frameIndex f canvas =
     (let snap = takeSnapshot f;
          f1 = prepareCapture width height f
      in case captureBody width height ctx2d imageLoads f1 canvas of
           (Pending, canvas1) \<Rightarrow> (Pending, f1, canvas1)
         | (result, canvas1) \<Rightarrow>
             (let f2 = restoreFiber snap f1
              in case canvas1 of
                   None \<Rightarrow>
                     (Threw (TypeError ''Cannot read properties of null (reading '__effectComposer')''),
                      f2, canvas1)
                 | Some cv \<Rightarrow>
                     (case canvas_effectComposer cv of
                        Some composer \<Rightarrow>
                          (case resizeComposer (originalRendererSize snap) composer of
                             (composer', done) \<Rightarrow>
                               (if done then result else Threw passError, f2,
                                Some (cv\<lparr>canvas_effectComposer := Some composer'\<rparr>)))
                      | None \<Rightarrow> (result, f2, Some cv))))"


section \<open>Frame sequencer (useExport.tsx)\<close>

subsection \<open>Planning the frames\<close>

text \<open>
  The loop \<open>for (let i = 0; i < totalFrames; i += step)\<close> with
  \<open>step = Math.max(1, Math.floor(totalFrames / renderSteps))\<close>; the second argument
  is the floored quotient, from which the step is taken.
\<close>

function sampleLoop :: "int \<Rightarrow> int \<Rightarrow> int \<Rightarrow> int list" where
  "sampleLoop totalFrames quot i =
     (if i < totalFrames then i # sampleLoop totalFrames quot (i + max 1 quot) else [])"
  by pat_completeness auto
termination
  by (relation "measure (\<lambda>(totalFrames, quot, i). nat (totalFrames - i))") auto

declare sampleLoop.simps [simp del]

text \<open>
  Which frames \<open>exportSequence\<close> renders. All of them when \<open>renderSteps\<close> is exactly 1
  or at least \<open>totalFrames\<close>; otherwise every \<open>step\<close>-th one. With \<open>renderSteps = 0\<close>
  the sampling branch is reached only for a positive \<open>totalFrames\<close>, the quotient is
  \<open>Infinity\<close>, and the loop pushes 0 and stops. For other divisors the floored quotient
  of two integers is \<open>div\<close>. The last index is then appended unless the list already
  ends with it (an empty list has no last element and gets the index too).
\<close>

definition planFrames :: "int \<Rightarrow> int \<Rightarrow> int list" where
  "planFrames totalFrames renderSteps =
     (let framesToRender =
            (if renderSteps = 1 \<or> renderSteps \<ge> totalFrames then [0..totalFrames - 1]
             else if renderSteps = 0 then [0]
             else sampleLoop totalFrames (totalFrames div renderSteps) 0)
      in if framesToRender = [] \<or> last framesToRender \<noteq> totalFrames - 1
         then framesToRender @ [totalFrames - 1]
         else framesToRender)"

text \<open>
  The plan in the specification's words: every index when \<open>renderSteps \<le> 1\<close> or
  \<open>renderSteps \<ge> totalFrames\<close>; otherwise the multiples of
  \<open>step = max 1 (floor (totalFrames / renderSteps))\<close> below \<open>totalFrames\<close>, with the
  final index appended when it is not already last.
\<close>

definition planFrames_spec :: "int \<Rightarrow> int \<Rightarrow> int list" where
  "planFrames_spec totalFrames renderSteps =
     (if renderSteps \<le> 1 \<or> renderSteps \<ge> totalFrames then [0..totalFrames - 1]
      else (let step = max 1 (totalFrames div renderSteps);
                sampled = filter (\<lambda>i. step dvd i) [0..totalFrames - 1]
            in if last sampled = totalFrames - 1 then sampled
               else sampled @ [totalFrames - 1]))"


subsection \<open>Sprite sheet layout\<close>

text \<open>
  \<open>columns = Math.ceil(Math.sqrt(frameCount))\<close> and
  \<open>rows = Math.ceil(frameCount / columns)\<close>. Without frames there are no columns and
  the quotient \<open>0 / 0\<close> is NaN, written \<open>None\<close>; a canvas height of NaN is 0.
\<close>

definition sheetColumns :: "nat \<Rightarrow> nat" where
  "sheetColumns frameCount = nat \<lceil>sqrt (real frameCount)\<rceil>"

text \<open>
  The same number of columns by search: the least \<open>c\<close> from a starting point with
  \<open>n \<le> c * c\<close>. It serves to compute \<open>sheetColumns\<close>.
\<close>

function ceilSqrtFrom :: "nat \<Rightarrow> nat \<Rightarrow> nat" where
  "ceilSqrtFrom n c = (if n \<le> c * c then c else ceilSqrtFrom n (c + 1))"
  by pat_completeness auto
termination
  by (relation "measure (\<lambda>(n, c). n - c * c)") auto

declare ceilSqrtFrom.simps [simp del]

definition sheetRows :: "nat \<Rightarrow> nat option" where
  "sheetRows frameCount =
     (let columns = sheetColumns frameCount
      in if columns = 0 then None else Some (nat \<lceil>real frameCount / real columns\<rceil>))"

definition sheetSize :: "nat \<Rightarrow> nat \<Rightarrow> nat \<Rightarrow> nat \<times> nat" where
  "sheetSize width height frameCount =
     (width * sheetColumns frameCount,
      (case sheetRows frameCount of None \<Rightarrow> 0 | Some rows \<Rightarrow> height * rows))"

text \<open>
  Where the \<open>i\<close>-th frame is drawn: column \<open>i % columns\<close>, row
  \<open>Math.floor(i / columns)\<close>, scaled by the frame size. The loop that uses it runs only
  when there are frames, hence columns.
\<close>

definition cellPosition :: "nat \<Rightarrow> nat \<Rightarrow> nat \<Rightarrow> nat \<Rightarrow> nat \<times> nat" where
  "cellPosition columns width height i =
     (let col = i mod columns;
          row = i div columns;
          x = col * width;
          y = row * height
      in (x, y))"


subsection \<open>The page around the export\<close>

text \<open>
  The file-system bridge is an external collaborator. Each of its two variants
  (\<open>window.electron\<close> and \<open>window.electronAPI\<close>) may be absent and may lack either
  function; a function answers a call with a boolean that may depend on how many bridge
  calls came before and on the path. A file or directory counts as written when the
  call answers \<open>true\<close>.
\<close>

record bridge =
  br_createDirectory :: "(nat \<Rightarrow> string \<Rightarrow> bool) option"
  br_saveFile :: "(nat \<Rightarrow> string \<Rightarrow> bool) option"

datatype image = FrameImage raster | SheetImage "raster sheetCanvas"

record world =
  w_canvas :: "canvasEl option"
  w_ctx2d :: bool
  w_imageLoads :: bool
  w_electron :: "bridge option"
  w_electronAPI :: "bridge option"
  w_calls :: nat
  w_files :: "(string \<times> image) list"
  w_dirs :: "string list"
  w_toasts :: "toast list"
  w_frameChanges :: "int list"

text \<open>The hook's own state.\<close>

record exportState =
  ex_width :: nat
  ex_height :: nat
  ex_backgroundColor :: string
  ex_renderSteps :: int
  ex_outputFolder :: "string option"

definition showToast :: "string \<Rightarrow> string \<Rightarrow> bool \<Rightarrow> world \<Rightarrow> world" where
  "showToast title description destructive w =
     w\<lparr>w_toasts := w_toasts w @ [\<lparr>toast_title = title, toast_description = description,
                                   toast_destructive = destructive\<rparr>]\<rparr>"

definition bridgeFn ::
  "bridge option \<Rightarrow> (bridge \<Rightarrow> (nat \<Rightarrow> string \<Rightarrow> bool) option) \<Rightarrow> (nat \<Rightarrow> string \<Rightarrow> bool) option" where
  "bridgeFn b sel = (case b of None \<Rightarrow> None | Some x \<Rightarrow> sel x)"

text \<open>One call of a bridge function, made only when the variant is in use.\<close>

definition createWith ::
  "(nat \<Rightarrow> string \<Rightarrow> bool) option \<Rightarrow> bool \<Rightarrow> string \<Rightarrow> world \<Rightarrow> bool \<times> world" where
  "createWith fn inUse path w =
     (case fn of
        Some call \<Rightarrow>
          if inUse
          then (let ok = call (w_calls w) path
                in (ok, w\<lparr>w_calls := w_calls w + 1,
                          w_dirs := (if ok then w_dirs w @ [path] else w_dirs w)\<rparr>))
          else (False, w)
      | None \<Rightarrow> (False, w))"

definition saveWith ::
  "(nat \<Rightarrow> string \<Rightarrow> bool) option \<Rightarrow> bool \<Rightarrow> string \<Rightarrow> image \<Rightarrow> world \<Rightarrow> bool \<times> world" where
  "saveWith fn inUse path data w =
     (case fn of
        Some call \<Rightarrow>
          if inUse
          then (let ok = call (w_calls w) path
                in (ok, w\<lparr>w_calls := w_calls w + 1,
                          w_files := (if ok then w_files w @ [(path, data)] else w_files w)\<rparr>))
          else (False, w)
      | None \<Rightarrow> (False, w))"

text \<open>\<open>window.electron\<close> first, \<open>window.electronAPI\<close> when that did not succeed.\<close>

definition createDirectory :: "bool \<Rightarrow> bool \<Rightarrow> string \<Rightarrow> world \<Rightarrow> bool \<times> world" where
  "createDirectory hasElectronAPI hasElectronAPIFallback path w =
     (case createWith (bridgeFn (w_electron w) br_createDirectory) hasElectronAPI path w of
        (directoryCreated, w1) \<Rightarrow>
          if \<not> directoryCreated
          then createWith (bridgeFn (w_electronAPI w1) br_createDirectory)
                 hasElectronAPIFallback path w1
          else (directoryCreated, w1))"

definition saveImage :: "bool \<Rightarrow> bool \<Rightarrow> string \<Rightarrow> image \<Rightarrow> world \<Rightarrow> bool \<times> world" where
  "saveImage hasElectronAPI hasElectronAPIFallback path data w =
     (case saveWith (bridgeFn (w_electron w) br_saveFile) hasElectronAPI path data w of
        (fileSaved, w1) \<Rightarrow>
          if \<not> fileSaved
          then saveWith (bridgeFn (w_electronAPI w1) br_saveFile)
                 hasElectronAPIFallback path data w1
          else (fileSaved, w1))"

text \<open>
  Replacing the characters \<open>< > : " | ? * / \\<close> of a name by underscores.
\<close>

definition hostile :: "char list" where
  "hostile = [CHR ''<'', CHR ''>'', CHR '':'', CHR 0x22, CHR ''|'', CHR ''?'', CHR ''*'',
              CHR ''/'', CHR 0x5C]"

definition sanitize :: "string \<Rightarrow> string" where
  "sanitize name = map (\<lambda>c. if c \<in> set hostile then CHR ''_'' else c) name"

text \<open>
  \<open>renderFrame\<close> on the page. The renderer, scene and camera that the caller took from
  the canvas are passed along; the canvas is looked up again inside.
\<close>

definition renderInWorld :: "exportState \<Rightarrow> int \<Rightarrow> fiber \<Rightarrow> world \<Rightarrow> raster outcome \<times> fiber \<times> world" where
  "renderInWorld st frameIndex f w =
     (case renderFrame (ex_width st) (ex_height st) (w_ctx2d w) (w_imageLoads w) frameIndex f
             (w_canvas w) of
        (result, f', canvas') \<Rightarrow> (result, f', w\<lparr>w_canvas := canvas'\<rparr>))"

text \<open>
  The fiber's objects are the canvas's own; after an export the model writes them back
  into the canvas.
\<close>

definition storeFiber :: "fiber \<Rightarrow> world \<Rightarrow> world" where
  "storeFiber f w = w\<lparr>w_canvas := map_option (\<lambda>cv. cv\<lparr>canvas_r3f := Some f\<rparr>) (w_canvas w)\<rparr>"

subsection \<open>Exporting a sequence\<close>

text \<open>
  The loop over the planned frames: seek, render, save as
  \<open>frame_<index padded to four digits>.png\<close>, report progress. A failed save raises.
  (The settle delays are waits and leave no trace in the state.)
\<close>

fun exportFrames ::
  "exportState \<Rightarrow> bool \<Rightarrow> bool \<Rightarrow> string \<Rightarrow> nat \<Rightarrow> nat \<Rightarrow> int list \<Rightarrow> fiber \<Rightarrow> world
     \<Rightarrow> unit outcome \<times> fiber \<times> world" where
  "exportFrames st hasE hasF animationFolder n i [] f w = (Returned (), f, w)"
| "exportFrames st hasE hasF animationFolder n i (frameIndex # rest) f w =
     (let w1 = w\<lparr>w_frameChanges := w_frameChanges w @ [frameIndex]\<rparr>
      in case renderInWorld st frameIndex f w1 of
           (Pending, f2, w2) \<Rightarrow> (Pending, f2, w2)
         | (Threw e, f2, w2) \<Rightarrow> (Threw e, f2, w2)
         | (Returned dataURL, f2, w2) \<Rightarrow>
             (let paddedIndex = padStart4 (show_int frameIndex);
                  filename = animationFolder @ ''/frame_'' @ paddedIndex @ ''.png''
              in case saveImage hasE hasF filename (FrameImage dataURL) w2 of
                   (fileSaved, w3) \<Rightarrow>
                     if \<not> fileSaved
                     then (Threw (Error (''Failed to save file: '' @ filename)), f2, w3)
                     else exportFrames st hasE hasF animationFolder n (i + 1) rest f2
                            (showToast ''Export Progress''
                               (''Frame '' @ show_nat (i + 1) @ ''/'' @ show_nat n
                                  @ '' exported with effects'') False w3)))"

text \<open>
  The drawing loop of \<open>exportSpriteSheet\<close>: each frame is rendered again, loaded into
  an image (a failed load rejects with the event) and drawn into its cell.
\<close>

fun sheetFrames ::
  "exportState \<Rightarrow> nat \<Rightarrow> nat \<Rightarrow> int list \<Rightarrow> fiber \<Rightarrow> world
     \<Rightarrow> (raster \<times> nat \<times> nat \<times> nat \<times> nat) list outcome \<times> fiber \<times> world" where
  "sheetFrames st columns i [] f w = (Returned [], f, w)"
| "sheetFrames st columns i (frameIndex # rest) f w =
     (let w1 = w\<lparr>w_frameChanges := w_frameChanges w @ [frameIndex]\<rparr>
      in case renderInWorld st frameIndex f w1 of
           (Pending, f2, w2) \<Rightarrow> (Pending, f2, w2)
         | (Threw e, f2, w2) \<Rightarrow> (Threw e, f2, w2)
         | (Returned dataURL, f2, w2) \<Rightarrow>
             if \<not> w_imageLoads w2 then (Threw LoadEvent, f2, w2)
             else (case cellPosition columns (ex_width st) (ex_height st) i of
                     (x, y) \<Rightarrow>
                       (case sheetFrames st columns (i + 1) rest f2 w2 of
                          (Returned draws, f3, w3) \<Rightarrow>
                            (Returned ((dataURL, x, y, ex_width st, ex_height st) # draws), f3, w3)
                        | other \<Rightarrow> other)))"

definition showRows :: "nat option \<Rightarrow> string" where
  "showRows rows = (case rows of None \<Rightarrow> ''NaN'' | Some r \<Rightarrow> show_nat r)"

definition folderText :: "string option \<Rightarrow> string" where
  "folderText folder = (case folder of None \<Rightarrow> ''null'' | Some s \<Rightarrow> s)"

text \<open>
  \<open>exportSpriteSheet\<close>: lay out the grid, draw every planned frame, save the sheet as
  \<open><animation>_spritesheet_<columns>x<rows>.png\<close>. Its handler raises again whatever
  was raised.
\<close>

definition exportSpriteSheet ::
  "exportState \<Rightarrow> string \<Rightarrow> int \<Rightarrow> int list \<Rightarrow> fiber \<Rightarrow> world \<Rightarrow> string outcome \<times> fiber \<times> world" where
  "exportSpriteSheet st animation frames framesToRender f w =
     (let frameCount = length framesToRender;
          columns = sheetColumns frameCount;
          rows = sheetRows frameCount;
          canvasSize = sheetSize (ex_width st) (ex_height st) frameCount
      in if \<not> w_ctx2d w
         then (Threw (Error ''Could not get 2D context for sprite sheet''), f, w)
         else (let w1 = showToast ''Creating Sprite Sheet''
                          (''Rendering '' @ show_nat frameCount @ '' frames in a ''
                             @ show_nat columns @ ''x'' @ showRows rows @ '' grid...'') False w
               in case sheetFrames st columns 0 framesToRender f w1 of
                    (Pending, f2, w2) \<Rightarrow> (Pending, f2, w2)
                  | (Threw e, f2, w2) \<Rightarrow> (Threw e, f2, w2)
                  | (Returned draws, f2, w2) \<Rightarrow>
                      (let sheet = \<lparr>sheet_width = fst canvasSize, sheet_height = snd canvasSize,
                                    sheet_draws = draws\<rparr>;
                           sanitizedAnimationName = sanitize animation;
                           filename = folderText (ex_outputFolder st) @ ''/''
                              @ sanitizedAnimationName @ ''_spritesheet_''
                              @ show_nat columns @ ''x'' @ showRows rows @ ''.png'';
                           hasElectronAPI = (bridgeFn (w_electron w2) br_saveFile \<noteq> None);
                           hasElectronAPIFallback = (bridgeFn (w_electronAPI w2) br_saveFile \<noteq> None)
                       in case saveImage hasElectronAPI hasElectronAPIFallback filename
                                 (SheetImage sheet) w2 of
                            (fileSaved, w3) \<Rightarrow>
                              if \<not> fileSaved
                              then (Threw (Error (''Failed to save sprite sheet: '' @ filename)), f2, w3)
                              else (Returned filename, f2,
                                    showToast ''Sprite Sheet Exported''
                                      (''Saved as '' @ show_nat columns @ ''x'' @ showRows rows
                                         @ '' grid with '' @ show_nat frameCount @ '' frames'')
                                      False w3))))"

text \<open>The \<open>try\<close> block of \<open>exportSequence\<close>.\<close>

definition exportSequenceBody ::
  "exportState \<Rightarrow> string \<Rightarrow> string \<Rightarrow> int \<Rightarrow> bool \<Rightarrow> bool \<Rightarrow> fiber \<Rightarrow> world
     \<Rightarrow> unit outcome \<times> fiber \<times> world" where
  "exportSequenceBody st outputFolder animation frames hasE hasF f w =
     (let sanitizedAnimationName = sanitize animation;
          animationFolder = outputFolder @ ''/'' @ sanitizedAnimationName
      in case createDirectory hasE hasF animationFolder w of
           (directoryCreated, w1) \<Rightarrow>
             if \<not> directoryCreated
             then (Threw (Error (''Failed to create directory: '' @ animationFolder)), f, w1)
             else (let framesToRender = planFrames frames (ex_renderSteps st);
                       w2 = showToast ''Export Started''
                              (''Exporting '' @ show_nat (length framesToRender)
                                 @ '' frames with effects applied...'') False w1
                   in case exportFrames st hasE hasF animationFolder (length framesToRender) 0
                             framesToRender f w2 of
                        (Pending, f3, w3) \<Rightarrow> (Pending, f3, w3)
                      | (Threw e, f3, w3) \<Rightarrow> (Threw e, f3, w3)
                      | (Returned u, f3, w3) \<Rightarrow>
                          (let w4 = showToast ''Creating Sprite Sheet''
                                      ''Combining frames into a single image...'' False w3
                           in case exportSpriteSheet st animation frames framesToRender f3 w4 of
                                (Pending, f5, w5) \<Rightarrow> (Pending, f5, w5)
                              | (Threw e, f5, w5) \<Rightarrow> (Threw e, f5, w5)
                              | (Returned filename, f5, w5) \<Rightarrow>
                                  (Returned (), f5,
                                   showToast ''Export Complete''
                                     (show_nat (length framesToRender)
                                        @ '' frames + sprite sheet exported to '' @ animationFolder)
                                     False w5))))"

text \<open>
  \<open>exportSequence(currentAnimation, totalFrames)\<close>. A missing folder, a missing
  animation, a missing bridge or a missing scene ends the call with an error toast. With
  no canvas at all, the property read that precedes the \<open>try\<close> block raises. Whatever
  the \<open>try\<close> block raises is caught, shown as a toast, and not raised again: the call
  then returns normally.
\<close>

definition exportSequence :: "exportState \<Rightarrow> string option \<Rightarrow> int \<Rightarrow> world \<Rightarrow> unit outcome \<times> world" where
  "exportSequence st currentAnimation frames w =
     (case (if truthy_name (ex_outputFolder st) then ex_outputFolder st else None) of
        None \<Rightarrow> (Returned (), showToast ''Error'' ''Please select an output folder first'' True w)
      | Some outputFolder \<Rightarrow>
         (case (if truthy_name currentAnimation then currentAnimation else None) of
            None \<Rightarrow> (Returned (), showToast ''Error'' ''No animation selected'' True w)
          | Some animation \<Rightarrow>
             (let hasElectronAPI = (bridgeFn (w_electron w) br_saveFile \<noteq> None
                                    \<and> bridgeFn (w_electron w) br_createDirectory \<noteq> None);
                  hasElectronAPIFallback = (bridgeFn (w_electronAPI w) br_saveFile \<noteq> None
                                    \<and> bridgeFn (w_electronAPI w) br_createDirectory \<noteq> None)
              in if \<not> hasElectronAPI \<and> \<not> hasElectronAPIFallback
                 then (Returned (), showToast ''Error'' ''File system access is not available'' True w)
                 else (case w_canvas w of
                         None \<Rightarrow> (Threw (TypeError ''Cannot read properties of null (reading '__r3f')''), w)
                       | Some cv \<Rightarrow>
                          (case canvas_r3f cv of
                             None \<Rightarrow> (Returned (), showToast ''Error'' ''Could not access the 3D scene'' True w)
                           | Some f \<Rightarrow>
                              (case exportSequenceBody st outputFolder animation frames
                                      hasElectronAPI hasElectronAPIFallback f w of
                                 (Pending, f', w') \<Rightarrow> (Pending, storeFiber f' w')
                               | (Threw e, f', w') \<Rightarrow>
                                   (Returned (),
                                    showToast ''Error'' (''Failed to export sequence: '' @ messageText e)
                                      True (storeFiber f' w'))
                               | (Returned u, f', w') \<Rightarrow> (Returned (), storeFiber f' w')))))))"

section \<open>Multi-angle batch controller (SafeMultiExport.tsx)\<close>

text \<open>
  \<open>rotateToAngle\<close> of the calibration hook: nothing happens without a calibration
  whose front face is set, for an unknown angle name, or without the container;
  otherwise the container's yaw is set to the front-face rotation plus the angle's
  offset.
\<close>

definition angleOffset :: "string \<Rightarrow> real option" where
  "angleOffset angleName =
     (if angleName = ''face'' then Some 0
      else if angleName = ''dos'' then Some pi
      else if angleName = ''profil_droit'' then Some (pi / 2)
      else if angleName = ''profil_gauche'' then Some (- (pi / 2))
      else if angleName = ''trois_quart_droite'' then Some (pi / 4)
      else if angleName = ''trois_quart_gauche'' then Some (- (pi / 4))
      else None)"

definition rotateToAngle :: "calibState \<Rightarrow> string \<Rightarrow> canvasEl option \<Rightarrow> canvasEl option" where
  "rotateToAngle cs angleName canvas =
     (case calibration cs of
        None \<Rightarrow> canvas
      | Some cal \<Rightarrow>
          if \<not> isFrontFaceSet cal then canvas
          else (case angleOffset angleName of
                  None \<Rightarrow> canvas
                | Some offset \<Rightarrow>
                   (let targetAngle = jsadd (frontFaceRotation cal) (Fin offset)
                    in case canvas of
                         None \<Rightarrow> canvas
                       | Some cv \<Rightarrow>
                          (case canvas_r3f cv of
                             None \<Rightarrow> canvas
                           | Some fib \<Rightarrow>
                              (case scene_importedModel (fib_scene fib) of
                                 None \<Rightarrow> canvas
                               | Some cont \<Rightarrow>
                                   Some (cv\<lparr>canvas_r3f := Some (fib\<lparr>fib_scene := (fib_scene fib)
                                     \<lparr>scene_importedModel :=
                                        Some (cont\<lparr>cont_rotationY := targetAngle\<rparr>)\<rparr>\<rparr>)\<rparr>))))))"

text \<open>The component's properties and state.\<close>

record multiExportProps =
  mp_hasCalibration :: bool
  mp_isFrontFaceSet :: bool
  mp_currentAnimation :: "string option"
  mp_totalFrames :: int
  mp_outputFolder :: "string option"

record multiExportState =
  me_selectedAngles :: "string list"
  me_isExporting :: bool
  me_exportProgress :: real
  me_currentAngle :: "string option"

definition canExport :: "multiExportProps \<Rightarrow> multiExportState \<Rightarrow> bool" where
  "canExport props ui =
     (mp_hasCalibration props \<and> mp_isFrontFaceSet props
      \<and> truthy_name (mp_outputFolder props) \<and> truthy_name (mp_currentAnimation props)
      \<and> mp_totalFrames props > 0 \<and> length (me_selectedAngles ui) > 0)"

text \<open>
  The loop of \<open>handleExport\<close>: for each selected angle, rotate, export the sequence
  and await it, update the progress. An export that raises ends the loop.
\<close>

fun exportAngles ::
  "(string \<Rightarrow> world \<Rightarrow> world) \<Rightarrow> (string \<Rightarrow> int \<Rightarrow> world \<Rightarrow> unit outcome \<times> world)
     \<Rightarrow> string \<Rightarrow> int \<Rightarrow> nat \<Rightarrow> nat \<Rightarrow> string list \<Rightarrow> multiExportState \<Rightarrow> world
     \<Rightarrow> unit outcome \<times> multiExportState \<times> world" where
  "exportAngles onRotateToAngle onExportSequence animation frames n i [] ui w = (Returned (), ui, w)"
| "exportAngles onRotateToAngle onExportSequence animation frames n i (angleKey # rest) ui w =
     (let ui1 = ui\<lparr>me_currentAngle := Some angleKey\<rparr>;
          w1 = onRotateToAngle angleKey w
      in case onExportSequence animation frames w1 of
           (Pending, w2) \<Rightarrow> (Pending, ui1, w2)
         | (Threw e, w2) \<Rightarrow> (Threw e, ui1, w2)
         | (Returned u, w2) \<Rightarrow>
             exportAngles onRotateToAngle onExportSequence animation frames n (i + 1) rest
               (ui1\<lparr>me_exportProgress := (real (i + 1) / real n) * 100\<rparr>) w2)"

definition e_acute :: string where
  "e_acute = [CHR 0xC3, CHR 0xA9]"

text \<open>
  \<open>handleExport\<close>: nothing unless the export is possible; then the loop, a success
  toast when the loop ends, an error toast when an export raised, and in both cases the
  reset of the component's state. The error toast shows \<open>error.message\<close>, or the
  fallback text when the message is undefined or empty.
\<close>

definition handleExport ::
  "(string \<Rightarrow> world \<Rightarrow> world) \<Rightarrow> (string \<Rightarrow> int \<Rightarrow> world \<Rightarrow> unit outcome \<times> world)
     \<Rightarrow> multiExportProps \<Rightarrow> multiExportState \<Rightarrow> world
     \<Rightarrow> unit outcome \<times> multiExportState \<times> world" where
  "handleExport onRotateToAngle onExportSequence props ui w =
     (if \<not> canExport props ui then (Returned (), ui, w)
      else (case mp_currentAnimation props of
              None \<Rightarrow> (Returned (), ui, w)
            | Some animation \<Rightarrow>
               (let ui0 = ui\<lparr>me_isExporting := True, me_exportProgress := 0\<rparr>;
                    n = length (me_selectedAngles ui);
                    reset = (\<lambda>u. u\<lparr>me_isExporting := False, me_exportProgress := 0,
                                    me_currentAngle := None\<rparr>)
                in case exportAngles onRotateToAngle onExportSequence animation
                          (mp_totalFrames props) n 0 (me_selectedAngles ui) ui0 w of
                     (Pending, ui1, w1) \<Rightarrow> (Pending, ui1, w1)
                   | (Threw e, ui1, w1) \<Rightarrow>
                       (Returned (), reset ui1,
                        showToast ''Erreur d'export''
                          (case message e of
                             None \<Rightarrow> ''Une erreur est survenue''
                           | Some m \<Rightarrow> if m = [] then ''Une erreur est survenue'' else m)
                          True w1)
                   | (Returned u, ui1, w1) \<Rightarrow>
                       (Returned (), reset ui1,
                        showToast (''Export termin'' @ e_acute)
                          (show_nat n @ '' angles export'' @ e_acute @ ''s avec succ''
                             @ [CHR 0xC3, CHR 0xA8] @ ''s'')
                          False w1))))"


section \<open>Scenarios\<close>




definition flatBox :: box3 where
  "flatBox = \<lparr>box_min = (Fin 0, Fin 0, Fin 0), box_max = (Fin 1, Fin 0, Fin 1)\<rparr>"

definition flatModel :: gltfModel where
  "flatModel = \<lparr>model_scene = Some flatBox, model_animations = None\<rparr>"

definition bareRenderer :: renderer where
  "bareRenderer = \<lparr>r_size = (Fin 800, Fin 600), r_pixelRatio = Fin 2,
                    r_clearColor = (Fin 0, Fin 0, Fin 0), r_clearAlpha = Fin 1,
                    r_domElement = (Fin 1600, Fin 1200)\<rparr>"

definition bareCamera :: camera where
  "bareCamera = \<lparr>cam_position = (Fin 0, Fin 1, Fin 5), cam_rotation = (Fin 0, Fin 0, Fin 0),
                  cam_zoom = Some (Fin 1),
                  cam_projection = Perspective (Fin 50) (Fin (4 / 3)) (Fin (1 / 10)) (Fin 1000)\<rparr>"

definition bareFiber :: fiber where
  "bareFiber = \<lparr>fib_renderer = bareRenderer,
                 fib_scene = \<lparr>scene_background = Some 1, scene_importedModel = None\<rparr>,
                 fib_camera = bareCamera\<rparr>"

definition bareCanvas :: canvasEl where
  "bareCanvas = \<lparr>canvas_r3f = Some bareFiber, canvas_effectComposer = None\<rparr>"

definition scenarioCalibration :: SafeModelCalibration where
  "scenarioCalibration = \<lparr>originalScale = Fin 1, normalizedScale = Fin (1 / 2),
     groundOffset = Fin 0, frontFaceRotation = Fin 0, isFrontFaceSet = False,
     originalSize = (Fin 1, Fin 3, Fin 1), targetHeight = Fin (3 / 2)\<rparr>"

definition noCalibration :: calibState where
  "noCalibration = \<lparr>calibration = None, isCalibrating = False\<rparr>"




definition liveRenderer :: renderer where
  "liveRenderer = \<lparr>r_size = (Fin 800, Fin 600), r_pixelRatio = Fin 2,
                    r_clearColor = (Fin (1 / 10), Fin (1 / 10), Fin (1 / 10)), r_clearAlpha = Fin 1,
                    r_domElement = (Fin 1000, Fin 700)\<rparr>"

definition liveCamera :: camera where
  "liveCamera = \<lparr>cam_position = (Fin 0, Fin 1, Fin 5), cam_rotation = (Fin 0, Fin 0, Fin 0),
                  cam_zoom = Some (Fin 40),
                  cam_projection = Orthographic (Fin (- 2)) (Fin 2) (Fin 1) (Fin (- 1))
                                     (Fin (1 / 10)) (Fin 1000)\<rparr>"

definition liveContainer :: container where
  "liveContainer = \<lparr>cont_scale = (Fin 1, Fin 1, Fin 1), cont_positionY = Fin 0,
                     cont_rotationY = Fin 0\<rparr>"

definition liveFiber :: fiber where
  "liveFiber = \<lparr>fib_renderer = liveRenderer,
                 fib_scene = \<lparr>scene_background = Some 1,
                              scene_importedModel = Some liveContainer\<rparr>,
                 fib_camera = liveCamera\<rparr>"

definition liveCanvas :: canvasEl where
  "liveCanvas = \<lparr>canvas_r3f = Some liveFiber,
                  canvas_effectComposer =
                    Some \<lparr>comp_size = (Fin 800, Fin 600), comp_pixelRatio = Fin 2,
                          comp_passes = [Some (Fin 1600, Fin 1200), Some (Fin 1600, Fin 1200)]\<rparr>\<rparr>"

text \<open>
  A batch of two angles over a two-frame animation, with a bridge whose second call (the
  first frame of the first angle) fails and whose other calls succeed.
\<close>

definition flakyBridge :: bridge where
  "flakyBridge = \<lparr>br_createDirectory = Some (\<lambda>n path. True),
                   br_saveFile = Some (\<lambda>n path. n \<noteq> 1)\<rparr>"

definition batchWorld :: world where
  "batchWorld = \<lparr>w_canvas = Some liveCanvas, w_ctx2d = True, w_imageLoads = True,
                  w_electron = Some flakyBridge, w_electronAPI = None, w_calls = 0,
                  w_files = [], w_dirs = [], w_toasts = [], w_frameChanges = []\<rparr>"

definition batchExportState :: exportState where
  "batchExportState = \<lparr>ex_width = 128, ex_height = 128, ex_backgroundColor = ''#121212'',
                        ex_renderSteps = 1, ex_outputFolder = Some ''out''\<rparr>"

definition batchProps :: multiExportProps where
  "batchProps = \<lparr>mp_hasCalibration = True, mp_isFrontFaceSet = True,
                  mp_currentAnimation = Some ''walk'', mp_totalFrames = 2,
                  mp_outputFolder = Some ''out''\<rparr>"

definition batchState :: multiExportState where
  "batchState = \<lparr>me_selectedAngles = [''face'', ''dos''], me_isExporting = False,
                  me_exportProgress = 0, me_currentAngle = None\<rparr>"

definition frontCalibration :: calibState where
  "frontCalibration = \<lparr>calibration = Some (scenarioCalibration\<lparr>isFrontFaceSet := True\<rparr>),
                        isCalibrating = False\<rparr>"

definition batchRotate :: "string \<Rightarrow> world \<Rightarrow> world" where
  "batchRotate angle w = w\<lparr>w_canvas := rotateToAngle frontCalibration angle (w_canvas w)\<rparr>"

definition batchExport :: "string \<Rightarrow> int \<Rightarrow> world \<Rightarrow> unit outcome \<times> world" where
  "batchExport animation frames w = exportSequence batchExportState (Some animation) frames w"

definition batchRun :: "unit outcome \<times> multiExportState \<times> world" where
  "batchRun = handleExport batchRotate batchExport batchProps batchState batchWorld"

section \<open>Properties\<close>

subsection \<open>Rounding to a double\<close>

text \<open>The search finds the binade.\<close>

lemma binadeUp_reaches:
  assumes "e \<le> E" and "E \<le> 1023" and "2 powr (of_int E) \<le> a" and "a < 2 powr (of_int E + 1)"
  shows "binadeUp a e (2 powr (of_int e)) = (E, 2 powr (of_int E))"
  using assms(1)
proof (induction "nat (E - e)" arbitrary: e)
  case 0
  then have eq: "e = E" by simp
  have "2 * 2 powr (of_int E) = (2::real) powr (of_int E + 1)" by (simp add: powr_add)
  with assms(4) have "\<not> 2 * 2 powr (of_int E) \<le> a" by simp
  then show ?case unfolding eq by (subst binadeUp.simps) simp
next
  case (Suc n)
  then have lt: "e < E" and n: "n = nat (E - (e + 1))" and le: "e + 1 \<le> E" by simp_all
  have step: "2 * 2 powr (of_int e) = (2::real) powr (of_int (e + 1))" by (simp add: powr_add)
  have "(2::real) powr (of_int (e + 1)) \<le> 2 powr (of_int E)" using le by (simp del: of_int_add)
  with assms(3) have "2 * 2 powr (of_int e) \<le> a" using step by linarith
  moreover have "e < 1024" using lt assms(2) by simp
  ultimately have "binadeUp a e (2 powr (of_int e)) = binadeUp a (e + 1) (2 * 2 powr (of_int e))"
    by (subst binadeUp.simps) simp
  also have "\<dots> = binadeUp a (e + 1) (2 powr (of_int (e + 1)))" by (simp only: step)
  also have "\<dots> = (E, 2 powr (of_int E))" using Suc.hyps(1) [OF n le] .
  finally show ?case .
qed

lemma binadeDown_reaches:
  assumes "E \<le> e" and "- 1022 \<le> E" and "a < 2 powr (of_int E + 1)"
    and "E = - 1022 \<or> 2 powr (of_int E) \<le> a"
  shows "binadeDown a e (2 powr (of_int e)) = (E, 2 powr (of_int E))"
  using assms(1)
proof (induction "nat (e - E)" arbitrary: e)
  case 0
  then have eq: "e = E" by simp
  from assms(4) have "\<not> (- 1022 < E \<and> a < 2 powr (of_int E))" by auto
  then show ?case unfolding eq by (subst binadeDown.simps) (simp only: if_False)
next
  case (Suc n)
  then have lt: "E < e" and n: "n = nat (e - 1 - E)" and le: "E \<le> e - 1" by simp_all
  have step: "2 powr (of_int e) / 2 = (2::real) powr (of_int (e - 1))" by (simp add: powr_diff)
  have "(2::real) powr (of_int E + 1) \<le> 2 powr (of_int e)" using lt by simp
  with assms(3) have "a < 2 powr (of_int e)" by linarith
  moreover have "- 1022 < e" using lt assms(2) by simp
  ultimately have "binadeDown a e (2 powr (of_int e)) = binadeDown a (e - 1) (2 powr (of_int e) / 2)"
    by (subst binadeDown.simps) simp
  also have "\<dots> = binadeDown a (e - 1) (2 powr (of_int (e - 1)))" by (simp only: step)
  also have "\<dots> = (E, 2 powr (of_int E))" using Suc.hyps(1) [OF n le] .
  finally show ?case .
qed

lemma binade_normal:
  assumes "- 1022 \<le> E" and "E \<le> 1023" and "2 powr (of_int E) \<le> a" and "a < 2 powr (of_int E + 1)"
  shows "binade a = (E, 2 powr (of_int E))"
proof (cases "1 \<le> a")
  case True
  with assms(4) have "1 < (2::real) powr (of_int E + 1)" by linarith
  then have "0 < of_int E + (1::real)" using powr_less_cancel_iff [of 2 0 "of_int E + 1"] by simp
  then have "0 \<le> E" by linarith
  from binadeUp_reaches [OF this assms(2,3,4)] True show ?thesis by (simp add: binade_def)
next
  case False
  with assms(3) have "(2::real) powr (of_int E) < 1" by linarith
  then have "of_int E < (0::real)" using powr_less_cancel_iff [of 2 "of_int E" 0] by simp
  then have "E \<le> 0" by linarith
  from binadeDown_reaches [OF this assms(1,4)] assms(3) False show ?thesis by (simp add: binade_def)
qed

lemma binade_subnormal:
  assumes "0 < a" and "a < 2 powr (- 1022)"
  shows "binade a = (- 1022, 2 powr (- 1022))"
proof -
  have lt1: "a < 1"
  proof -
    have "(2::real) powr (- 1022) \<le> 2 powr 0" by (rule powr_mono) simp_all
    with assms(2) show ?thesis by simp
  qed
  have "(2::real) powr (- 1022) \<le> 2 powr (of_int (- 1022) + 1)" by (rule powr_mono) simp_all
  with assms(2) have "a < 2 powr (of_int (- 1022) + 1)" by linarith
  from binadeDown_reaches [of "- 1022" 0 a, OF _ _ this] lt1 show ?thesis
    by (simp add: binade_def)
qed

lemma binade_cases:
  assumes "0 < a" and "a < 2 powr 1024"
  obtains E where "binade a = (E, 2 powr (of_int E))" and "- 1022 \<le> E" and "E \<le> 1023"
    and "a < 2 powr (of_int E + 1)" and "E = - 1022 \<or> 2 powr (of_int E) \<le> a"
proof (cases "a < 2 powr (- 1022)")
  case True
  have "(2::real) powr (- 1022) \<le> 2 powr (of_int (- 1022) + 1)" by (rule powr_mono) simp_all
  with True have "a < 2 powr (of_int (- 1022) + 1)" by linarith
  with binade_subnormal [OF assms(1) True] that [of "- 1022"] show ?thesis by simp
next
  case False
  define E where "E = \<lfloor>log 2 a\<rfloor>"
  have a: "2 powr (log 2 a) = a" using assms(1) by simp
  have lo: "of_int E \<le> log 2 a" and hi: "log 2 a < of_int E + 1" unfolding E_def by linarith+
  have ge: "2 powr (of_int E) \<le> a"
    using powr_mono [OF lo, of 2] a by simp
  have lt: "a < 2 powr (of_int E + 1)"
    using powr_less_mono [OF hi, of 2] a by simp
  have "2 powr (- 1022) \<le> 2 powr (log 2 a)" using False a by (simp del: powr_neg_numeral)
  then have "- 1022 \<le> log 2 a" using powr_le_cancel_iff [of 2 "- 1022" "log 2 a"] by (simp del: powr_neg_numeral)
  then have E1: "- 1022 \<le> E" unfolding E_def by linarith
  have "2 powr (log 2 a) < 2 powr 1024" using assms(2) a by (simp del: powr_numeral)
  then have "log 2 a < 1024" using powr_less_cancel_iff [of 2 "log 2 a" 1024] by (simp del: powr_numeral)
  then have E2: "E \<le> 1023" unfolding E_def by linarith
  from binade_normal [OF E1 E2 ge lt] that [of E] E1 E2 lt ge show ?thesis by simp
qed

lemma roundHalfEven_of_int [simp]: "roundHalfEven (of_int z) = z"
  by (simp add: roundHalfEven_def)

lemma to_double_exact:
  fixes m e :: int
  assumes "m \<noteq> 0" and "\<bar>m\<bar> < 2 ^ 53" and "- 1074 \<le> e"
    and "\<bar>real_of_int m\<bar> * 2 powr (of_int e) < 2 powr 1024"
  shows "to_double (of_int m * 2 powr (of_int e)) = Fin (of_int m * 2 powr (of_int e))"
proof -
  define x :: real where "x = of_int m * 2 powr (of_int e)"
  define a where "a = \<bar>x\<bar>"
  have a_eq: "a = of_int \<bar>m\<bar> * 2 powr (of_int e)" by (simp add: a_def x_def abs_mult)
  have apos: "0 < a" using assms(1) by (simp add: a_eq)
  have alt: "a < 2 powr 1024" using assms(4) by (simp add: a_eq del: powr_numeral)
  have xne: "x \<noteq> 0" using apos by (simp add: a_def)
  from binade_cases [OF apos alt] obtain E where
    b: "binade a = (E, 2 powr (of_int E))" and E1: "- 1022 \<le> E"
    and sub: "E = - 1022 \<or> 2 powr (of_int E) \<le> a" by blast
  define k where "k = e - E + 52"
  have k0: "0 \<le> k"
  proof (cases "E = - 1022")
    case True
    with assms(3) show ?thesis by (simp add: k_def)
  next
    case False
    with sub have "2 powr (of_int E) \<le> a" by simp
    also have "a < 2 ^ 53 * 2 powr (of_int e)"
    proof -
      have "real_of_int \<bar>m\<bar> < 2 ^ 53" using assms(2) by (metis of_int_less_numeral_power_cancel_iff)
      then show ?thesis by (simp add: a_eq)
    qed
    also have "\<dots> = 2 powr (53 + of_int e)" by (simp add: powr_add)
    finally have "of_int E < 53 + (of_int e :: real)" by simp
    then have "E < 53 + e" by linarith
    then show ?thesis by (simp add: k_def)
  qed
  define u :: real where "u = 2 powr (of_int E) / 2 ^ 52"
  have u: "ulp a = u" by (simp add: ulp_def b u_def)
  have ulp_eq: "u = 2 powr (of_int E - 52)" by (simp add: u_def powr_diff)
  have ulp_pos: "0 < u" by (simp add: ulp_eq)
  have "a / u = of_int \<bar>m\<bar> * (2 powr (of_int e) / 2 powr (of_int E - 52))"
    by (simp add: a_eq ulp_eq)
  also have "2 powr (of_int e) / 2 powr (of_int E - 52) = (2::real) powr (of_int k)"
  proof -
    have "real_of_int e - (real_of_int E - 52) = of_int k" by (simp add: k_def)
    then show ?thesis by (simp only: powr_diff [symmetric])
  qed
  also have "(2::real) powr (of_int k) = 2 ^ nat k"
  proof -
    have "real_of_int k = real (nat k)" using k0 by simp
    then show ?thesis by (simp only: powr_realpow zero_less_numeral)
  qed
  finally have q: "a / u = of_int (\<bar>m\<bar> * 2 ^ nat k)" by simp
  have y: "nearest a = a"
  proof -
    have "of_int (roundHalfEven (a / u)) = a / u" unfolding q by (simp only: roundHalfEven_of_int)
    then show ?thesis using ulp_pos by (simp add: nearest_def u)
  qed
  have small: "\<not> 2 ^ 1024 \<le> a" using alt by simp
  have "to_double x = Fin (if 0 < x then a else - a)"
    using xne small by (simp only: to_double_def a_def [symmetric] y if_False)
  also have "(if 0 < x then a else - a) = x" by (simp add: a_def)
  finally show ?thesis by (simp add: x_def)
qed

lemma to_double_of_int:
  assumes "\<bar>z\<bar> \<le> 2 ^ 53"
  shows "to_double (of_int z) = Fin (of_int z)"
proof (cases "z = 0")
  case True
  then show ?thesis by (simp add: to_double_def)
next
  case False
  show ?thesis
  proof (cases "\<bar>z\<bar> = 2 ^ 53")
    case True
    then have "z = 2 ^ 53 \<or> z = - (2 ^ 53)" by (auto simp: abs_if split: if_splits)
    then have "real_of_int z = of_int (sgn z) * 2 powr (of_int 53)"
      by (auto simp: powr_numeral)
    moreover have "to_double (of_int (sgn z) * 2 powr (of_int 53)) = Fin (of_int (sgn z) * 2 powr (of_int 53))"
    proof (rule to_double_exact)
      show "sgn z \<noteq> 0" using False by (simp add: sgn_if)
      show "\<bar>sgn z\<bar> < 2 ^ 53" using False by (simp add: sgn_if)
      show "- 1074 \<le> (53::int)" by simp
      have "(2::real) powr 53 < 2 powr 1024" by (rule powr_less_mono) simp_all
      then show "\<bar>real_of_int (sgn z)\<bar> * 2 powr (of_int 53) < 2 powr 1024"
        using False by (simp add: sgn_if)
    qed
    ultimately show ?thesis by simp
  next
    case ne: False
    with assms have lt: "\<bar>z\<bar> < 2 ^ 53" by simp
    have "to_double (of_int z * 2 powr (of_int 0)) = Fin (of_int z * 2 powr (of_int 0))"
    proof (rule to_double_exact [OF False lt])
      show "- 1074 \<le> (0::int)" by simp
      have "\<bar>real_of_int z\<bar> < 2 ^ 53" using lt by (metis of_int_abs of_int_less_numeral_power_cancel_iff)
      also have "\<dots> = (2::real) powr 53" by (simp add: powr_numeral)
      also have "\<dots> < 2 powr 1024" by (rule powr_less_mono) simp_all
      finally show "\<bar>real_of_int z\<bar> * 2 powr (of_int 0) < 2 powr 1024" by simp
    qed
    then show ?thesis by simp
  qed
qed


text \<open>
  The value of \<open>to_double\<close> at a positive real whose binade is known, and at the
  negative of a real.
\<close>

lemma to_double_at:
  assumes "0 < x" and "- 1022 \<le> E" and "E \<le> 1023" and "p = 2 powr (of_int E)"
    and "p \<le> x" and "x < 2 * p"
  shows "to_double x =
           (if 2 ^ 1024 \<le> of_int (roundHalfEven (x / (p / 2 ^ 52))) * (p / 2 ^ 52) then PInf
            else Fin (of_int (roundHalfEven (x / (p / 2 ^ 52))) * (p / 2 ^ 52)))"
proof -
  have "2 * p = 2 powr (of_int E + 1)" by (simp add: assms(4) powr_add)
  with assms(6) have lt: "x < 2 powr (of_int E + 1)" by simp
  from assms(5) have ge: "2 powr (of_int E) \<le> x" by (simp add: assms(4))
  from binade_normal [OF assms(2,3) ge lt] have "ulp x = p / 2 ^ 52"
    by (simp add: ulp_def assms(4))
  then have n: "nearest x = of_int (roundHalfEven (x / (p / 2 ^ 52))) * (p / 2 ^ 52)"
    by (simp only: nearest_def)
  have ax: "\<bar>x\<bar> = x" using assms(1) by simp
  show ?thesis unfolding to_double_def ax n using assms(1) by simp
qed

lemma to_double_minus:
  "to_double (- x) = (case to_double x of Fin y \<Rightarrow> Fin (- y) | PInf \<Rightarrow> NInf | NInf \<Rightarrow> PInf | NaN \<Rightarrow> NaN)"
  by (simp add: to_double_def)

text \<open>Rounding a real of magnitude 1 or more keeps its sign; a natural number rounds to one.\<close>

lemma binadeUp_inv:
  "p = 2 powr (of_int e) \<Longrightarrow> p \<le> a \<Longrightarrow>
   \<exists>E. binadeUp a e p = (E, 2 powr (of_int E)) \<and> e \<le> E \<and> 2 powr (of_int E) \<le> a"
proof (induction a e p rule: binadeUp.induct)
  case (1 a e p)
  show ?case
  proof (cases "e < 1024 \<and> 2 * p \<le> a")
    case True
    have p2: "2 * p = 2 powr (of_int (e + 1))" using 1(2) by (simp add: powr_add)
    from 1(1) [OF True p2] True obtain E where
      "binadeUp a (e + 1) (2 * p) = (E, 2 powr (of_int E))" "e + 1 \<le> E" "2 powr (of_int E) \<le> a"
      by blast
    moreover have "binadeUp a e p = binadeUp a (e + 1) (2 * p)"
      using True by (subst binadeUp.simps) simp
    ultimately show ?thesis by (intro exI [of _ E]) simp
  next
    case False
    then have "binadeUp a e p = (e, p)" by (subst binadeUp.simps) auto
    with 1(2,3) show ?thesis by (intro exI [of _ e]) simp
  qed
qed

lemma binade_ge1:
  assumes "1 \<le> a"
  obtains E where "binade a = (E, 2 powr (of_int E))" and "0 \<le> E" and "2 powr (of_int E) \<le> a"
proof -
  from binadeUp_inv [of 1 0 a] assms obtain E where
    "binadeUp a 0 1 = (E, 2 powr (of_int E))" "0 \<le> E" "2 powr (of_int E) \<le> a" by auto
  with assms that show ?thesis by (simp add: binade_def)
qed

lemma roundHalfEven_ge: "of_int z \<le> q \<Longrightarrow> z \<le> roundHalfEven q"
proof -
  assume "of_int z \<le> q"
  then have "z \<le> \<lfloor>q\<rfloor>" by (simp add: le_floor_iff)
  then show ?thesis by (simp add: roundHalfEven_def Let_def)
qed

lemma nearest_ge1:
  assumes "1 \<le> a"
  shows "1 \<le> nearest a"
proof -
  from binade_ge1 [OF assms] obtain E where
    b: "binade a = (E, 2 powr (of_int E))" and E0: "0 \<le> E" and le: "2 powr (of_int E) \<le> a" by blast
  define u :: real where "u = 2 powr (of_int E) / 2 ^ 52"
  have u: "ulp a = u" by (simp add: ulp_def b u_def)
  have upos: "0 < u" by (simp add: u_def)
  have "of_int (2 ^ 52) \<le> a / u"
    using le by (simp add: u_def field_simps)
  from roundHalfEven_ge [OF this] have "2 ^ 52 \<le> roundHalfEven (a / u)" .
  then have "(2::real) ^ 52 \<le> of_int (roundHalfEven (a / u))"
    by (metis of_int_le_iff of_int_numeral of_int_power)
  then have "2 ^ 52 * u \<le> of_int (roundHalfEven (a / u)) * u"
    using upos by (simp only: mult_le_cancel_right_pos)
  moreover have "2 ^ 52 * u = 2 powr (of_int E)" by (simp add: u_def)
  moreover have "(1::real) \<le> 2 powr (of_int E)" using E0 by (simp add: ge_one_powr_ge_zero)
  ultimately show ?thesis by (simp add: nearest_def u)
qed

lemma to_double_pos:
  assumes "1 \<le> x"
  shows "to_double x = PInf \<or> (\<exists>y. 1 \<le> y \<and> to_double x = Fin y)"
  using assms nearest_ge1 [OF assms] by (simp add: to_double_def)

lemma to_double_nat:
  "to_double (real n) = PInf \<or> (\<exists>k. to_double (real n) = Fin (real k))"
proof (cases "n = 0")
  case True
  then have "to_double (real n) = Fin (real 0)" by (simp add: to_double_def)
  then show ?thesis by blast
next
  case False
  define a where "a = real n"
  have a1: "1 \<le> a" using False by (simp add: a_def)
  from binade_ge1 [OF a1] obtain E where
    b: "binade a = (E, 2 powr (of_int E))" and E0: "0 \<le> E" and le: "2 powr (of_int E) \<le> a" by blast
  define u :: real where "u = 2 powr (of_int E) / 2 ^ 52"
  have u: "ulp a = u" by (simp add: ulp_def b u_def)
  have ueq: "u = 2 powr (of_int E - 52)" by (simp add: u_def powr_diff)
  have upos: "0 < u" by (simp add: u_def)
  have "\<exists>k. nearest a = real k"
  proof (cases "52 \<le> E")
    case True
    then have "real_of_int E - 52 = real (nat (E - 52))" by simp
    then have up: "u = 2 ^ nat (E - 52)" unfolding ueq by (simp only: powr_realpow zero_less_numeral)
    have "0 \<le> a / u" using a1 upos by simp
    then have "of_int 0 \<le> a / u" by simp
    from roundHalfEven_ge [OF this] have "0 \<le> roundHalfEven (a / u)" .
    then have "nearest a = real (nat (roundHalfEven (a / u)) * 2 ^ nat (E - 52))"
      by (simp add: nearest_def u up)
    then show ?thesis by blast
  next
    case False
    then have "52 - real_of_int E = real (nat (52 - E))" by simp
    moreover have "1 / u = 2 powr (52 - of_int E)" unfolding ueq by (simp add: powr_diff)
    ultimately have "1 / u = 2 ^ nat (52 - E)" by (simp only: powr_realpow zero_less_numeral)
    then have "a / u = of_int (int n * 2 ^ nat (52 - E))"
      by (simp add: a_def divide_inverse)
    then have "of_int (roundHalfEven (a / u)) = a / u" by (simp only: roundHalfEven_of_int)
    then have "nearest a = a" using upos by (simp add: nearest_def u)
    then show ?thesis unfolding a_def by blast
  qed
  then obtain k where "nearest a = real k" by blast
  moreover have "\<bar>real n\<bar> = a" by (simp add: a_def)
  ultimately show ?thesis using False by (auto simp: to_double_def a_def)
qed


text \<open>The doubles met below.\<close>

lemma to_double_numeral:
  "numeral k \<le> (2::int) ^ 53 \<Longrightarrow> to_double (numeral k) = Fin (numeral k)"
  using to_double_of_int [of "numeral k"] by simp




lemma double_above_2_53: "to_double 9007199254740993 = Fin 9007199254740992"
  using to_double_at [of 9007199254740993 53 9007199254740992]
  by (simp add: roundHalfEven_def Let_def)



subsection \<open>Helper lemmas\<close>

lemma clamped_scale_cases:
  "case jsmax (jsmin (if jsgt h (Fin 0) then jsdiv (Fin (3 / 2)) h else Fin 1) (Fin 20))
          (Fin (1 / 2)) of
     Fin s \<Rightarrow> 1 / 2 \<le> s \<and> s \<le> 20 \<and> (\<not> jsgt h (Fin 0) \<longrightarrow> s = 1)
   | _ \<Rightarrow> False"
  by (cases h) (auto simp: field_simps)

lemma clamped_scale:
  "\<exists>s. jsmax (jsmin (if jsgt h (Fin 0) then jsdiv (Fin (3 / 2)) h else Fin 1) (Fin 20))
          (Fin (1 / 2)) = Fin s
       \<and> 1 / 2 \<le> s \<and> s \<le> 20 \<and> (\<not> jsgt h (Fin 0) \<longrightarrow> s = 1)"
  using clamped_scale_cases [of h] by (auto split: jsnum.splits)

lemma filter_upto_none:
  assumes "0 < s" 
  shows "b < a + s \<Longrightarrow> filter (\<lambda>j. s dvd (j - a)) [a + 1..b] = []"
proof -
  assume b: "b < a + s"
  have "\<And>j. j \<in> set [a + 1..b] \<Longrightarrow> \<not> s dvd (j - a)"
  proof -
    fix j assume "j \<in> set [a + 1..b]"
    then have "0 < j - a" "j - a < s" using b by auto
    then show "\<not> s dvd (j - a)" by (simp add: zdvd_not_zless)
  qed
  then show ?thesis by (simp add: filter_empty_conv)
qed

lemma sampleLoop_filter:
  "sampleLoop t q i = filter (\<lambda>j. max 1 q dvd (j - i)) [i..t - 1]"
proof (induction t q i rule: sampleLoop.induct)
  case (1 t q i)
  define s where "s = max 1 q"
  have spos: "0 < s" by (simp add: s_def)
  show ?case unfolding s_def [symmetric]
  proof (cases "i < t")
    case False
    then show "sampleLoop t q i = filter (\<lambda>j. s dvd (j - i)) [i..t - 1]"
      by (subst sampleLoop.simps) simp
  next
    case True
    have IH: "sampleLoop t q (i + s) = filter (\<lambda>j. s dvd (j - (i + s))) [i + s..t - 1]"
      using "1.IH" [OF True] by (simp add: s_def)
    have dv: "\<And>j. s dvd (j - (i + s)) \<longleftrightarrow> s dvd (j - i)"
    proof -
      fix j
      have "j - i = (j - (i + s)) + s" by simp
      then show "s dvd (j - (i + s)) \<longleftrightarrow> s dvd (j - i)"
        by (metis dvd_add_triv_right_iff)
    qed
    have hd: "[i..t - 1] = i # [i + 1..t - 1]" using True upto_rec1 [of i "t - 1"] by simp
    have rest: "filter (\<lambda>j. s dvd (j - i)) [i + 1..t - 1]
                  = filter (\<lambda>j. s dvd (j - i)) [i + s..t - 1]"
    proof (cases "i + s \<le> t - 1")
      case True
      have le1: "i + 1 \<le> i + s" using spos by simp
      have "[i + 1..t - 1] = [i + 1..i + s - 1] @ [i + s..t - 1]"
        using upto_split1 [OF le1 True] .
      moreover have "filter (\<lambda>j. s dvd (j - i)) [i + 1..i + s - 1] = []"
        using filter_upto_none [OF spos, of "i + s - 1" i] by simp
      ultimately show ?thesis by simp
    next
      case False
      then have lt: "t - 1 < i + s" by simp
      from False have "[i + s..t - 1] = []" by simp
      with filter_upto_none [OF spos lt] show ?thesis by simp
    qed
    have "sampleLoop t q i = i # sampleLoop t q (i + s)"
      using True by (subst sampleLoop.simps) (simp add: s_def)
    also have "\<dots> = i # filter (\<lambda>j. s dvd (j - i)) [i + s..t - 1]"
      using IH dv by simp
    also have "\<dots> = filter (\<lambda>j. s dvd (j - i)) [i..t - 1]"
      using hd rest by simp
    finally show "sampleLoop t q i = filter (\<lambda>j. s dvd (j - i)) [i..t - 1]" .
  qed
qed

lemma last_upto: "a \<le> b \<Longrightarrow> last [a..b] = b"
  by (simp add: upto_rec2)

lemma planFrames_refines_spec:
  assumes "1 \<le> t" and "r \<noteq> 0"
  shows "planFrames t r = planFrames_spec t r"
proof (cases "r = 1 \<or> r \<ge> t")
  case True
  then have "r \<le> 1 \<or> r \<ge> t" by auto
  with True assms show ?thesis
    by (simp add: planFrames_def planFrames_spec_def last_upto)
next
  case False
  show ?thesis
  proof (cases "r \<le> 1")
    case True
    with assms False have neg: "r < 0" by simp
    with assms have "t div r < 0" by (simp add: neg_imp_zdiv_neg_iff)
    then have m: "max 1 (t div r) = 1" by simp
    have "sampleLoop t (t div r) 0 = [0..t - 1]"
      unfolding sampleLoop_filter m by simp
    with assms False True show ?thesis
      by (simp add: planFrames_def planFrames_spec_def last_upto)
  next
    case r: False
    have "sampleLoop t (t div r) 0 = filter (\<lambda>i. max 1 (t div r) dvd i) [0..t - 1]"
      unfolding sampleLoop_filter by simp
    moreover have "filter (\<lambda>i. max 1 (t div r) dvd i) [0..t - 1] \<noteq> []"
    proof -
      have "[0..t - 1] = 0 # [1..t - 1]" using assms upto_rec1 [of 0 "t - 1"] by simp
      then show ?thesis by simp
    qed
    ultimately show ?thesis using False r assms
      by (simp add: planFrames_def planFrames_spec_def Let_def)
  qed
qed

lemma sheetColumns_char:
  assumes "0 < c" and "(c - 1) * (c - 1) < n" and "n \<le> c * c"
  shows "sheetColumns n = c"
proof -
  have up: "sqrt (real n) \<le> real c"
  proof -
    have "real n \<le> (real c)\<^sup>2" using assms(3)
      by (metis of_nat_le_iff of_nat_mult power2_eq_square)
    then show ?thesis by (simp add: real_le_lsqrt)
  qed
  have lo: "real c - 1 < sqrt (real n)"
  proof -
    have "(real c - 1)\<^sup>2 < real n"
    proof -
      have "real ((c - 1) * (c - 1)) < real n" using assms(2) by (simp only: of_nat_less_iff)
      moreover have "real (c - 1) = real c - 1" using assms(1) by (simp add: of_nat_diff)
      ultimately show ?thesis by (simp add: power2_eq_square)
    qed
    moreover have "0 \<le> real c - 1" using assms(1) by simp
    ultimately show ?thesis using real_less_rsqrt by blast
  qed
  have "\<lceil>sqrt (real n)\<rceil> = int c"
    using lo up by (intro ceiling_unique) simp_all
  then show ?thesis by (simp add: sheetColumns_def)
qed




lemma restoreProjection_same_kind:
  "restoreProjection p (cam_projection (updateCameraAspect a (cam\<lparr>cam_projection := p\<rparr>))) = p"
  by (cases p) (simp_all add: restoreProjection_def updateCameraAspect_def Let_def)

lemma restoreFiber_prepareCapture:
  "restoreFiber (takeSnapshot f) (prepareCapture w h f)
     = f\<lparr>fib_renderer := (fib_renderer f)\<lparr>r_domElement :=
            (jsfloor (jsmul (fst (r_size (fib_renderer f))) (r_pixelRatio (fib_renderer f))),
             jsfloor (jsmul (snd (r_size (fib_renderer f))) (r_pixelRatio (fib_renderer f))))\<rparr>\<rparr>"
proof -
  obtain p where p: "cam_projection (fib_camera f) = p" by simp
  have cam: "restoreProjection p (cam_projection (updateCameraAspect a (fib_camera f))) = p" for a
    using restoreProjection_same_kind [of p a "fib_camera f"] p
    by (metis camera.surjective camera.update_convs(4) old.unit.exhaust)
  show ?thesis
    unfolding restoreFiber_def prepareCapture_def takeSnapshot_def Let_def
    by (simp add: setSize_def setPixelRatio_def setClearColor_def p cam)
qed

lemma renderFrame_settled:
  assumes "renderFrame w h ctx2d imageLoads i f canvas = (result, f', canvas')"
    and "result \<noteq> Pending"
  shows "f' = restoreFiber (takeSnapshot f) (prepareCapture w h f)"
  using assms
  by (auto simp add: renderFrame_def captureBody_def Let_def
      split: option.splits if_splits outcome.splits prod.splits)

lemmas render_defs = renderFrame_def captureBody_def Let_def takeSnapshot_def prepareCapture_def
     restoreFiber_def restoreProjection_def updateCameraAspect_def resizeComposer_def
     composerSetSize_def passError_def setSize_def setPixelRatio_def setClearColor_def jssub_def

lemma ceilSqrtFrom_least:
  "c * c < n \<or> c = 0 \<Longrightarrow> (\<And>d. d < c \<Longrightarrow> d * d < n) \<Longrightarrow>
   n \<le> ceilSqrtFrom n c * ceilSqrtFrom n c
   \<and> (\<forall>d < ceilSqrtFrom n c. d * d < n)"
proof (induction n c rule: ceilSqrtFrom.induct)
  case (1 n c)
  show ?case
  proof (cases "n \<le> c * c")
    case True
    then have "ceilSqrtFrom n c = c" by (subst ceilSqrtFrom.simps) simp
    with True 1(3) show ?thesis by simp
  next
    case False
    then have eq: "ceilSqrtFrom n c = ceilSqrtFrom n (c + 1)"
      by (subst ceilSqrtFrom.simps) simp
    have below: "\<And>d. d < c + 1 \<Longrightarrow> d * d < n"
    proof -
      fix d assume "d < c + 1"
      then have "d < c \<or> d = c" by auto
      then show "d * d < n" using 1(3) False by auto
    qed
    show ?thesis
    proof (cases "n \<le> (c + 1) * (c + 1)")
      case True
      then have "ceilSqrtFrom n (c + 1) = c + 1" by (subst ceilSqrtFrom.simps) simp
      with eq True below show ?thesis by simp
    next
      case F2: False
      then have "(c + 1) * (c + 1) < n \<or> c + 1 = 0" by simp
      from 1(1) [OF False this below] eq show ?thesis by simp
    qed
  qed
qed

lemma sheetColumns_code [code]: "sheetColumns n = ceilSqrtFrom n 0"
proof (cases "n = 0")
  case True
  then show ?thesis by (simp add: sheetColumns_def ceilSqrtFrom.simps)
next
  case False
  define c where "c = ceilSqrtFrom n 0"
  from ceilSqrtFrom_least [of 0 n] have a: "n \<le> c * c" and b: "\<forall>d < c. d * d < n"
    by (simp_all add: c_def)
  from a False have c0: "0 < c" by (cases c) auto
  then have "c - 1 < c" by simp
  with b have "(c - 1) * (c - 1) < n" by blast
  from sheetColumns_char [OF c0 this a] show ?thesis by (simp add: c_def)
qed

lemma cols2: "sheetColumns 2 = 2"
  by (rule sheetColumns_char) simp_all

lemma rows2: "sheetRows 2 = Some 1"
  by (simp add: sheetRows_def cols2)

lemma grid_of_two: "sheetColumns (Suc (Suc 0)) = 2" "sheetRows (Suc (Suc 0)) = Some 1"
  using cols2 rows2 by (simp_all add: numeral_2_eq_2)

lemma show_small: "show_nat (Suc 0) = ''1''" "show_nat (Suc (Suc 0)) = ''2''"
  by code_simp+

lemma plan21: "planFrames 2 1 = [0, 1]"
  by code_simp

lemma show_values: "show_nat 1 = ''1''" "show_nat 2 = ''2''" "padStart4 (show_int 0) = ''0000''"
  "padStart4 (show_int 1) = ''0001''"
  by code_simp+

lemma sanitize_walk: "sanitize ''walk'' = ''walk''"
  by code_simp

lemmas export_defs = handleExport_def canExport_def truthy_name_def exportSequence_def
  exportSequenceBody_def exportSpriteSheet_def createDirectory_def createWith_def saveImage_def
  saveWith_def bridgeFn_def showToast_def renderInWorld_def storeFiber_def folderText_def
  showRows_def sheetSize_def cellPosition_def messageText_def

lemmas batch_defs = batchRun_def batchRotate_def batchExport_def batchProps_def batchState_def
  batchWorld_def batchExportState_def flakyBridge_def frontCalibration_def scenarioCalibration_def
  liveCanvas_def liveFiber_def liveRenderer_def liveCamera_def liveContainer_def
  rotateToAngle_def angleOffset_def

lemma length_filter_update:
  "i < length xs \<Longrightarrow>
   length (filter P (xs[i := y])) + (if P (xs ! i) then 1 else 0)
     = length (filter P xs) + (if P y then 1 else 0)"
proof (induction xs arbitrary: i)
  case Nil
  then show ?case by simp
next
  case (Cons x xs)
  show ?case
  proof (cases i)
    case 0
    then show ?thesis by simp
  next
    case (Suc j)
    with Cons.prems have "j < length xs" by simp
    from Cons.IH [OF this] Suc show ?thesis by simp
  qed
qed

subsection \<open>The claims\<close>

text \<open>
  C9. Toggling a frame at a valid index keeps the number of frames, keeps every
  frame's id, file name, data and dimensions at its position, and changes the
  number of active frames by exactly one: one fewer when the frame was enabled,
  one more when it was disabled.
\<close>

theorem toggleFrame_preserves:
  assumes "0 \<le> i" and "i < int (length frames)"
  shows "\<exists>frames'. toggleFrame frames i = Inr frames'
           \<and> length frames' = length frames
           \<and> (\<forall>j < length frames.
                 frame_id (frames' ! j) = frame_id (frames ! j)
               \<and> frame_filename (frames' ! j) = frame_filename (frames ! j)
               \<and> frame_data (frames' ! j) = frame_data (frames ! j)
               \<and> frame_width (frames' ! j) = frame_width (frames ! j)
               \<and> frame_height (frames' ! j) = frame_height (frames ! j))
           \<and> (if frame_enabled (frames ! nat i)
               then length (getActiveFrames frames') + 1 = length (getActiveFrames frames)
               else length (getActiveFrames frames') = length (getActiveFrames frames) + 1)"
proof -
  let ?k = "nat i"
  let ?old = "frames ! ?k"
  let ?new = "?old\<lparr>frame_enabled := \<not> frame_enabled ?old\<rparr>"
  let ?fs = "frames[?k := ?new]"
  from assms have k: "?k < length frames" by simp
  from assms have eq: "toggleFrame frames i = Inr ?fs"
    by (simp add: toggleFrame_def Let_def)
  have same: "\<forall>j < length frames.
                 frame_id (?fs ! j) = frame_id (frames ! j)
               \<and> frame_filename (?fs ! j) = frame_filename (frames ! j)
               \<and> frame_data (?fs ! j) = frame_data (frames ! j)
               \<and> frame_width (?fs ! j) = frame_width (frames ! j)
               \<and> frame_height (?fs ! j) = frame_height (frames ! j)"
    using k by (auto simp add: nth_list_update)
  have cnt: "if frame_enabled ?old
             then length (getActiveFrames ?fs) + 1 = length (getActiveFrames frames)
             else length (getActiveFrames ?fs) = length (getActiveFrames frames) + 1"
    using length_filter_update [OF k, of frame_enabled ?new]
    by (simp add: getActiveFrames_def split: if_splits)
  from eq same cnt show ?thesis by simp
qed


theorem toggleFrame_preserves_witness:
  "(0::int) \<le> 0
   \<and> 0 < int (length [\<lparr>frame_id = ''frame-1-0'', frame_filename = ''f1.png'', frame_data = ''d'',
                         frame_enabled = True, frame_width = 4, frame_height = 4\<rparr>])
   \<and> (\<exists>frames'.
         toggleFrame [\<lparr>frame_id = ''frame-1-0'', frame_filename = ''f1.png'', frame_data = ''d'',
                        frame_enabled = True, frame_width = 4, frame_height = 4\<rparr>] 0 = Inr frames'
       \<and> length frames' = 1
       \<and> frame_id (frames' ! 0) = ''frame-1-0''
       \<and> length (getActiveFrames frames') + 1
           = length (getActiveFrames [\<lparr>frame_id = ''frame-1-0'', frame_filename = ''f1.png'',
                frame_data = ''d'', frame_enabled = True, frame_width = 4, frame_height = 4\<rparr>]))"
  using toggleFrame_preserves [of 0 "[\<lparr>frame_id = ''frame-1-0'', frame_filename = ''f1.png'',
      frame_data = ''d'', frame_enabled = True, frame_width = 4, frame_height = 4\<rparr>]"]
  by auto






text \<open>
  C10. For every model with a scene root, \<open>analyzeModel\<close> returns a calibration whose
  \<open>normalizedScale\<close> is a finite number between 0.5 and 20; when the bounding box's
  height is not positive (zero, or not a number) no division takes place and the scale
  is 1.
\<close>

theorem analyzeModel_scale_bounded:
  assumes "model_scene m = Some box"
  shows "\<exists>cal s. analyzeModel (Some m) = Some cal
            \<and> normalizedScale cal = Fin s \<and> 1 / 2 \<le> s \<and> s \<le> 20
            \<and> (\<not> jsgt (fst (snd (box_getSize box))) (Fin 0) \<longrightarrow> s = 1)"
proof -
  obtain sx sy sz where sz: "box_getSize box = (sx, sy, sz)"
    by (cases "box_getSize box") auto
  from clamped_scale [of sy] obtain s where
    s: "jsmax (jsmin (if jsgt sy (Fin 0) then jsdiv (Fin (3 / 2)) sy else Fin 1) (Fin 20))
          (Fin (1 / 2)) = Fin s"
       "1 / 2 \<le> s" "s \<le> 20" "\<not> jsgt sy (Fin 0) \<longrightarrow> s = 1"
    by blast
  from assms sz s(1) have "\<exists>cal. analyzeModel (Some m) = Some cal \<and> normalizedScale cal = Fin s"
    by (simp add: analyzeModel_def Let_def)
  with s(2,3,4) sz show ?thesis by auto
qed

theorem analyzeModel_scale_bounded_witness:
  "model_scene flatModel = Some flatBox
   \<and> \<not> jsgt (fst (snd (box_getSize flatBox))) (Fin 0)
   \<and> (\<exists>cal. analyzeModel (Some flatModel) = Some cal \<and> normalizedScale cal = Fin 1)"
proof -
  have sc: "model_scene flatModel = Some flatBox" by (simp add: flatModel_def)
  have h: "\<not> jsgt (fst (snd (box_getSize flatBox))) (Fin 0)"
    by (simp add: box_getSize_def box_isEmpty_def flatBox_def jslt_def jssub_def)
  from analyzeModel_scale_bounded [OF sc] h
  have "\<exists>cal. analyzeModel (Some flatModel) = Some cal \<and> normalizedScale cal = Fin 1"
    by auto
  with sc h show ?thesis by simp
qed

text \<open>
  C5, as amended. When the scene container cannot be located (no canvas, no scene, or no
  object named \<open>importedModel\<close>), \<open>applyCalibration\<close> returns \<open>false\<close> without raising
  and leaves both the viewport and the in-memory calibration state as they were: the
  calibration being applied is not stored.
\<close>

theorem applyCalibration_container_missing:
  assumes "locateContainer canvas = None"
  shows "applyCalibration newCalibration canvas st = (False, canvas, st)"
  using assms
  by (auto simp add: applyCalibration_def locateContainer_def split: option.splits)

theorem applyCalibration_container_missing_witness:
  "locateContainer (Some bareCanvas) = None
   \<and> applyCalibration scenarioCalibration (Some bareCanvas) noCalibration
       = (False, Some bareCanvas, noCalibration)"
proof -
  have h: "locateContainer (Some bareCanvas) = None"
    by (simp add: locateContainer_def bareCanvas_def bareFiber_def)
  from applyCalibration_container_missing [OF h] h show ?thesis by simp
qed

text \<open>
  The claim as first stated, that the state still takes the calibration being applied,
  fails: with no container in the scene the state stays empty.
\<close>

theorem applyCalibration_state_counterexample:
  "locateContainer (Some bareCanvas) = None
   \<and> fst (applyCalibration scenarioCalibration (Some bareCanvas) noCalibration) = False
   \<and> calibration (snd (snd (applyCalibration scenarioCalibration (Some bareCanvas) noCalibration)))
       \<noteq> Some scenarioCalibration"
  by (simp add: applyCalibration_def locateContainer_def bareCanvas_def bareFiber_def
      noCalibration_def)

text \<open>
  C3, as amended. For every \<open>totalFrames \<ge> 1\<close> and every \<open>renderSteps\<close> other than 0,
  the planned frames are those of the specification: every index when
  \<open>renderSteps \<le> 1\<close> or \<open>renderSteps \<ge> totalFrames\<close>, otherwise the multiples of
  \<open>step = max 1 (floor (totalFrames / renderSteps))\<close> with the final index appended when
  it is not already last. In particular 100 frames in 10 steps give
  \<open>0, 10, \<dots>, 90, 99\<close>.
\<close>

theorem planFrames_follows_spec:
  assumes "1 \<le> frames" and "steps \<noteq> 0"
  shows "planFrames frames steps = planFrames_spec frames steps
       \<and> planFrames 100 10 = [0, 10, 20, 30, 40, 50, 60, 70, 80, 90, 99]"
proof -
  have "planFrames 100 10 = [0, 10, 20, 30, 40, 50, 60, 70, 80, 90, 99]"
    by code_simp
  with planFrames_refines_spec [OF assms] show ?thesis by simp
qed

theorem planFrames_follows_spec_witness:
  "(1::int) \<le> 7 \<and> (3::int) \<noteq> 0
   \<and> planFrames 7 3 = planFrames_spec 7 3
   \<and> planFrames_spec 7 3 = [0, 2, 4, 6]"
proof -
  have a: "(1::int) \<le> 7" and b: "(3::int) \<noteq> 0" by simp_all
  have c: "planFrames_spec 7 3 = [0, 2, 4, 6]" by code_simp
  from planFrames_follows_spec [OF a b] a b c show ?thesis by simp
qed

text \<open>
  The claim as first stated also covers \<open>renderSteps = 0\<close>, where it asks for every
  index. There the code divides by zero, the step is infinite, and only the first and
  the last frame are planned.
\<close>

theorem planFrames_zero_steps_counterexample:
  "(0::int) \<le> 1 \<and> planFrames 5 0 = [0, 4] \<and> planFrames_spec 5 0 = [0, 1, 2, 3, 4]"
proof -
  have "planFrames 5 0 = [0, 4]" by code_simp
  moreover have "planFrames_spec 5 0 = [0, 1, 2, 3, 4]" by code_simp
  ultimately show ?thesis by simp
qed


text \<open>
  The insertion sort with a comparator is the insertion sort on a key whenever the
  comparator is positive exactly where the key decreases.
\<close>

lemma insertBy_insort_key:
  fixes key :: "'a \<Rightarrow> 'k::linorder"
  assumes "\<And>y. y \<in> set ys \<Longrightarrow> jsgt (cmp x y) (Fin 0) = (key y < key x)"
  shows "insertBy cmp x ys = insort_key key x ys"
  using assms by (induction ys) (auto simp add: not_le)

lemma sortBy_sort_key:
  fixes key :: "'a \<Rightarrow> 'k::linorder"
  assumes "\<And>x y. x \<in> set xs \<Longrightarrow> y \<in> set xs \<Longrightarrow> jsgt (cmp x y) (Fin 0) = (key y < key x)"
  shows "sortBy cmp xs = sort_key key xs"
  using assms
proof (induction xs)
  case Nil
  show ?case by (simp add: sortBy_def)
next
  case (Cons x xs)
  have IH: "sortBy cmp xs = sort_key key xs" using Cons by simp
  have "insertBy cmp x (sort_key key xs) = insort_key key x (sort_key key xs)"
    by (rule insertBy_insort_key) (use Cons.prems in simp)
  with IH show ?case by (simp add: sortBy_def)
qed

text \<open>
  The comparator on two natural numbers that are doubles: the rounded difference is
  positive exactly when the first is the larger.
\<close>

lemma dsub_nat_sign: "jsgt (dsub (Fin (real j)) (Fin (real k))) (Fin 0) = (k < j)"
proof -
  have eq: "dsub (Fin (real j)) (Fin (real k)) = to_double (real j - real k)"
    by (simp add: dsub_def jssub_def)
  show ?thesis
  proof (cases "k < j")
    case True
    then have "1 \<le> real j - real k" by linarith
    from to_double_pos [OF this] True show ?thesis unfolding eq by auto
  next
    case False
    show ?thesis
    proof (cases "j = k")
      case True
      then show ?thesis unfolding eq by (simp add: to_double_def)
    next
      case ne: False
      with False have "1 \<le> real k - real j" by linarith
      from to_double_pos [OF this] to_double_minus [of "real k - real j"]
      have "\<not> jsgt (to_double (real j - real k)) (Fin 0)" by auto
      with False show ?thesis unfolding eq by simp
    qed
  qed
qed

lemma frameNumber_shape: "frameNumber a = PInf \<or> (\<exists>k. frameNumber a = Fin (real k))"
proof (cases "firstDigits a = []")
  case True
  then have "frameNumber a = Fin (real 0)" by (simp add: frameNumber_def)
  then show ?thesis by blast
next
  case False
  with to_double_nat [of "digitsValue (firstDigits a)"] show ?thesis
    by (simp add: frameNumber_def parseInt_def)
qed

lemma compareFrames_key: "jsgt (compareFrames a b) (Fin 0) = (frameKey b < frameKey a)"
proof -
  from frameNumber_shape [of a] frameNumber_shape [of b]
  consider (both_finite) j k where "frameNumber a = Fin (real j)" "frameNumber b = Fin (real k)"
    | (second_infinite) j where "frameNumber a = Fin (real j)" "frameNumber b = PInf"
    | (first_infinite) k where "frameNumber a = PInf" "frameNumber b = Fin (real k)"
    | (both_infinite) "frameNumber a = PInf" "frameNumber b = PInf"
    by blast
  then show ?thesis
  proof cases
    case both_finite
    then show ?thesis by (simp add: compareFrames_def frameKey_def dsub_nat_sign)
  next
    case second_infinite
    then show ?thesis by (simp add: compareFrames_def frameKey_def dsub_def jssub_def)
  next
    case first_infinite
    then show ?thesis by (simp add: compareFrames_def frameKey_def dsub_def jssub_def)
  next
    case both_infinite
    then show ?thesis by (simp add: compareFrames_def frameKey_def dsub_def jssub_def)
  qed
qed

text \<open>
  Up to \<open>2\<^sup>5\<^sup>3\<close> the number of a file is its embedded integer, and the comparator
  compares the integers.
\<close>

lemma frameNumber_exact:
  assumes "embeddedInteger a \<le> 2 ^ 53"
  shows "frameNumber a = Fin (real (embeddedInteger a))"
proof (cases "firstDigits a = []")
  case True
  then show ?thesis by (simp add: frameNumber_def embeddedInteger_def)
next
  case False
  with assms have "\<bar>int (digitsValue (firstDigits a))\<bar> \<le> 2 ^ 53"
    by (simp add: embeddedInteger_def)
  from to_double_of_int [OF this] False show ?thesis
    by (simp add: frameNumber_def embeddedInteger_def parseInt_def)
qed

lemma compareFrames_exact:
  assumes "embeddedInteger a \<le> 2 ^ 53" and "embeddedInteger b \<le> 2 ^ 53"
  shows "jsgt (compareFrames a b) (Fin 0) = (embeddedInteger b < embeddedInteger a)"
  using frameNumber_exact [OF assms(1)] frameNumber_exact [OF assms(2)]
  by (simp add: compareFrames_def dsub_nat_sign)

lemma imageFiles_by_key: "imageFiles files = sort_key frameKey (filter isPng files)"
  unfolding imageFiles_def by (rule sortBy_sort_key) (rule compareFrames_key)

lemma imageFiles_by_integer:
  assumes "\<forall>f \<in> set files. isPng f \<longrightarrow> embeddedInteger f \<le> 2 ^ 53"
  shows "imageFiles files = sort_key embeddedInteger (filter isPng files)"
  unfolding imageFiles_def
proof (rule sortBy_sort_key)
  fix x y assume "x \<in> set (filter isPng files)" "y \<in> set (filter isPng files)"
  with assms have "embeddedInteger x \<le> 2 ^ 53" "embeddedInteger y \<le> 2 ^ 53" by auto
  then show "jsgt (compareFrames x y) (Fin 0) = (embeddedInteger y < embeddedInteger x)"
    by (rule compareFrames_exact)
qed

lemma small_numbers:
  "list_all (\<lambda>f. embeddedInteger f \<le> 10) (filter isPng [''f2.png'', ''f10.png'', ''f1.png''])"
  "list_all (\<lambda>f. embeddedInteger f \<le> 10) (filter isPng [''b.png'', ''a.png''])"
  "list_all (\<lambda>f. embeddedInteger f \<le> 10)
     (filter isPng [''f2.png'', ''notes.txt'', ''F10.PNG'', ''f1.png'', ''g2.png''])"
  by code_simp+

lemma below_2_53:
  assumes "list_all (\<lambda>f. embeddedInteger f \<le> 10) (filter isPng files)"
  shows "\<forall>f \<in> set files. isPng f \<longrightarrow> embeddedInteger f \<le> 2 ^ 53"
proof (intro ballI impI)
  fix f assume "f \<in> set files" "isPng f"
  with assms have "embeddedInteger f \<le> 10" by (simp add: list_all_iff)
  then show "embeddedInteger f \<le> 2 ^ 53" by simp
qed

lemmas small_listings = small_numbers [THEN below_2_53]

lemma small_sorts:
  "sort_key embeddedInteger (filter isPng [''f2.png'', ''f10.png'', ''f1.png''])
     = [''f1.png'', ''f2.png'', ''f10.png'']"
  "sort_key embeddedInteger (filter isPng [''b.png'', ''a.png'']) = [''b.png'', ''a.png'']"
  "sort_key embeddedInteger (filter isPng [''f2.png'', ''notes.txt'', ''F10.PNG'', ''f1.png'', ''g2.png''])
     = [''f1.png'', ''f2.png'', ''g2.png'', ''F10.PNG'']"
  by code_simp+

text \<open>
  C7, as amended. Ingestion keeps exactly the PNG files of the listing and orders them
  by the number that the language reads from the first run of digits of each name: the
  double nearest to the embedded integer, infinite for a run too long, 0 without
  digits. No file of the result compares above a later one, and files with the same
  number keep the order of the listing. For every listing whose embedded integers are
  at most \<open>2\<^sup>5\<^sup>3\<close> that number is the integer itself: the result is sorted by the
  first embedded integer, ties in listing order. The listing
  \<open>f2.png, f10.png, f1.png\<close> is ordered \<open>f1, f2, f10\<close>; two names without digits
  stay in listing order, not in lexical order.
\<close>

theorem imageFiles_ordered:
  "mset (imageFiles files) = mset (filter isPng files)
   \<and> sorted (map frameKey (imageFiles files))
   \<and> (\<forall>i j. i < j \<and> j < length (imageFiles files)
          \<longrightarrow> \<not> jsgt (compareFrames (imageFiles files ! i) (imageFiles files ! j)) (Fin 0))
   \<and> (\<forall>k. filter (\<lambda>f. frameKey f = k) (imageFiles files)
             = filter (\<lambda>f. frameKey f = k) (filter isPng files))
   \<and> ((\<forall>f \<in> set files. isPng f \<longrightarrow> embeddedInteger f \<le> 2 ^ 53) \<longrightarrow>
         sorted (map embeddedInteger (imageFiles files))
       \<and> (\<forall>f \<in> set files. isPng f \<longrightarrow> frameNumber f = Fin (real (embeddedInteger f)))
       \<and> (\<forall>k. filter (\<lambda>f. embeddedInteger f = k) (imageFiles files)
                 = filter (\<lambda>f. embeddedInteger f = k) (filter isPng files)))
   \<and> imageFiles [''f2.png'', ''f10.png'', ''f1.png''] = [''f1.png'', ''f2.png'', ''f10.png'']
   \<and> imageFiles [''b.png'', ''a.png''] = [''b.png'', ''a.png'']"
proof -
  have perm: "mset (imageFiles files) = mset (filter isPng files)"
    by (simp add: imageFiles_by_key)
  have srt: "sorted (map frameKey (imageFiles files))"
    by (simp add: imageFiles_by_key)
  have cmp: "\<forall>i j. i < j \<and> j < length (imageFiles files)
          \<longrightarrow> \<not> jsgt (compareFrames (imageFiles files ! i) (imageFiles files ! j)) (Fin 0)"
  proof (intro allI impI, elim conjE)
    fix i j assume ij: "i < j" "j < length (imageFiles files)"
    then have "map frameKey (imageFiles files) ! i \<le> map frameKey (imageFiles files) ! j"
      using srt by (intro sorted_nth_mono) simp_all
    with ij have "frameKey (imageFiles files ! i) \<le> frameKey (imageFiles files ! j)" by simp
    then show "\<not> jsgt (compareFrames (imageFiles files ! i) (imageFiles files ! j)) (Fin 0)"
      by (simp add: compareFrames_key not_less)
  qed
  have stab: "\<forall>k. filter (\<lambda>f. frameKey f = k) (imageFiles files)
             = filter (\<lambda>f. frameKey f = k) (filter isPng files)"
    unfolding imageFiles_by_key by (simp only: sort_key_stable) simp
  have exact: "(\<forall>f \<in> set files. isPng f \<longrightarrow> embeddedInteger f \<le> 2 ^ 53) \<longrightarrow>
         sorted (map embeddedInteger (imageFiles files))
       \<and> (\<forall>f \<in> set files. isPng f \<longrightarrow> frameNumber f = Fin (real (embeddedInteger f)))
       \<and> (\<forall>k. filter (\<lambda>f. embeddedInteger f = k) (imageFiles files)
                 = filter (\<lambda>f. embeddedInteger f = k) (filter isPng files))"
  proof
    assume small: "\<forall>f \<in> set files. isPng f \<longrightarrow> embeddedInteger f \<le> 2 ^ 53"
    note eq = imageFiles_by_integer [OF small]
    have a: "sorted (map embeddedInteger (imageFiles files))" by (simp add: eq)
    have b: "\<forall>f \<in> set files. isPng f \<longrightarrow> frameNumber f = Fin (real (embeddedInteger f))"
      using small frameNumber_exact by blast
    have c: "\<forall>k. filter (\<lambda>f. embeddedInteger f = k) (imageFiles files)
                 = filter (\<lambda>f. embeddedInteger f = k) (filter isPng files)"
      unfolding eq by (simp only: sort_key_stable) simp
    from a b c show "sorted (map embeddedInteger (imageFiles files))
       \<and> (\<forall>f \<in> set files. isPng f \<longrightarrow> frameNumber f = Fin (real (embeddedInteger f)))
       \<and> (\<forall>k. filter (\<lambda>f. embeddedInteger f = k) (imageFiles files)
                 = filter (\<lambda>f. embeddedInteger f = k) (filter isPng files))" by blast
  qed
  have ex1: "imageFiles [''f2.png'', ''f10.png'', ''f1.png''] = [''f1.png'', ''f2.png'', ''f10.png'']"
    by (simp only: imageFiles_by_integer [OF small_listings(1)] small_sorts(1))
  have ex2: "imageFiles [''b.png'', ''a.png''] = [''b.png'', ''a.png'']"
    by (simp only: imageFiles_by_integer [OF small_listings(2)] small_sorts(2))
  from perm srt cmp stab exact ex1 ex2 show ?thesis by blast
qed

theorem imageFiles_ordered_witness:
  "imageFiles [''f2.png'', ''notes.txt'', ''F10.PNG'', ''f1.png'', ''g2.png'']
     = [''f1.png'', ''f2.png'', ''g2.png'', ''F10.PNG'']
   \<and> sorted (map embeddedInteger
                (imageFiles [''f2.png'', ''notes.txt'', ''F10.PNG'', ''f1.png'', ''g2.png'']))
   \<and> filter (\<lambda>f. embeddedInteger f = 2)
        (imageFiles [''f2.png'', ''notes.txt'', ''F10.PNG'', ''f1.png'', ''g2.png''])
       = [''f2.png'', ''g2.png'']
   \<and> \<not> jsgt (compareFrames
                (imageFiles [''f2.png'', ''notes.txt'', ''F10.PNG'', ''f1.png'', ''g2.png''] ! 0)
                (imageFiles [''f2.png'', ''notes.txt'', ''F10.PNG'', ''f1.png'', ''g2.png''] ! 3))
             (Fin 0)"
proof -
  let ?files = "[''f2.png'', ''notes.txt'', ''F10.PNG'', ''f1.png'', ''g2.png'']"
  note t = imageFiles_ordered [of ?files]
  have res: "imageFiles ?files = [''f1.png'', ''f2.png'', ''g2.png'', ''F10.PNG'']"
    by (simp only: imageFiles_by_integer [OF small_listings(3)] small_sorts(3))
  from t small_listings(3)
  have a: "sorted (map embeddedInteger (imageFiles ?files))"
    and b: "\<forall>k. filter (\<lambda>f. embeddedInteger f = k) (imageFiles ?files)
                 = filter (\<lambda>f. embeddedInteger f = k) (filter isPng ?files)"
    by blast+
  have "filter (\<lambda>f. embeddedInteger f = 2) (filter isPng ?files) = [''f2.png'', ''g2.png'']"
    by code_simp
  with b have c: "filter (\<lambda>f. embeddedInteger f = 2) (imageFiles ?files) = [''f2.png'', ''g2.png'']"
    by simp
  from t have "(0::nat) < 3 \<and> 3 < length (imageFiles ?files)
          \<longrightarrow> \<not> jsgt (compareFrames (imageFiles ?files ! 0) (imageFiles ?files ! 3)) (Fin 0)"
    by blast
  then have d: "\<not> jsgt (compareFrames (imageFiles ?files ! 0) (imageFiles ?files ! 3)) (Fin 0)"
    by (simp add: res)
  from res a c d show ?thesis by blast
qed

text \<open>
  The claim as first stated orders every listing by the embedded integers. Above
  \<open>2\<^sup>5\<^sup>3\<close> two different integers can be read as the same number: the two files below
  are both read as 9007199254740992 and stay in listing order, the larger integer
  first.
\<close>

theorem imageFiles_long_numbers_counterexample:
  "isPng ''f9007199254740993.png'' \<and> isPng ''f9007199254740992.png''
   \<and> embeddedInteger ''f9007199254740993.png'' = 9007199254740993
   \<and> embeddedInteger ''f9007199254740992.png'' = 9007199254740992
   \<and> frameNumber ''f9007199254740993.png'' = Fin 9007199254740992
   \<and> frameNumber ''f9007199254740992.png'' = Fin 9007199254740992
   \<and> imageFiles [''f9007199254740993.png'', ''f9007199254740992.png'']
       = [''f9007199254740993.png'', ''f9007199254740992.png'']"
proof -
  have png: "isPng ''f9007199254740993.png''" "isPng ''f9007199254740992.png''"
    by code_simp+
  have d: "firstDigits ''f9007199254740993.png'' = ''9007199254740993''"
    "firstDigits ''f9007199254740992.png'' = ''9007199254740992''"
    by (simp_all add: firstDigits_def isDigit_def)
  have v: "digitsValue ''9007199254740993'' = 9007199254740993"
    "digitsValue ''9007199254740992'' = 9007199254740992"
    by (simp_all add: digitsValue_def)
  have e: "embeddedInteger ''f9007199254740993.png'' = 9007199254740993"
    "embeddedInteger ''f9007199254740992.png'' = 9007199254740992"
    by (simp_all add: embeddedInteger_def d v)
  have n1: "frameNumber ''f9007199254740993.png'' = Fin 9007199254740992"
    by (simp add: frameNumber_def parseInt_def d v double_above_2_53)
  have n2: "frameNumber ''f9007199254740992.png'' = Fin 9007199254740992"
    by (simp add: frameNumber_def parseInt_def d v to_double_numeral)
  have c: "compareFrames ''f9007199254740993.png'' ''f9007199254740992.png'' = Fin 0"
    by (simp add: compareFrames_def n1 n2 dsub_def jssub_def to_double_def)
  have "imageFiles [''f9007199254740993.png'', ''f9007199254740992.png'']
       = [''f9007199254740993.png'', ''f9007199254740992.png'']"
    by (simp add: imageFiles_def png sortBy_def c)
  with png e n1 n2 show ?thesis by simp
qed

text \<open>
  C1. Whenever a call of \<open>renderFrame\<close> completes, by returning a raster or by raising,
  the renderer's size, pixel ratio, clear colour and clear alpha, the scene background,
  and the camera's position, rotation, zoom and projection parameters (fov, aspect, near
  and far of a perspective camera; left, right, top, bottom, near and far of an
  orthographic one) are what they were before the call.
\<close>

theorem renderFrame_restores_state:
  assumes "renderFrame w h ctx2d imageLoads i f canvas = (result, f', canvas')"
    and "result \<noteq> Pending"
  shows "r_size (fib_renderer f') = r_size (fib_renderer f)
       \<and> r_pixelRatio (fib_renderer f') = r_pixelRatio (fib_renderer f)
       \<and> r_clearColor (fib_renderer f') = r_clearColor (fib_renderer f)
       \<and> r_clearAlpha (fib_renderer f') = r_clearAlpha (fib_renderer f)
       \<and> scene_background (fib_scene f') = scene_background (fib_scene f)
       \<and> cam_position (fib_camera f') = cam_position (fib_camera f)
       \<and> cam_rotation (fib_camera f') = cam_rotation (fib_camera f)
       \<and> cam_zoom (fib_camera f') = cam_zoom (fib_camera f)
       \<and> cam_projection (fib_camera f') = cam_projection (fib_camera f)"
proof -
  from renderFrame_settled [OF assms]
  have "f' = restoreFiber (takeSnapshot f) (prepareCapture w h f)" .
  then show ?thesis by (simp add: restoreFiber_prepareCapture)
qed

theorem renderFrame_restores_state_witness:
  "fst (renderFrame 128 64 True True 0 liveFiber (Some liveCanvas)) \<noteq> Pending
   \<and> fst (snd (renderFrame 128 64 True True 0 liveFiber (Some liveCanvas))) \<noteq> liveFiber
   \<and> r_size (fib_renderer (fst (snd (renderFrame 128 64 True True 0 liveFiber (Some liveCanvas)))))
        = (Fin 800, Fin 600)
   \<and> cam_projection (fib_camera (fst (snd (renderFrame 128 64 True True 0 liveFiber (Some liveCanvas)))))
        = Orthographic (Fin (- 2)) (Fin 2) (Fin 1) (Fin (- 1)) (Fin (1 / 10)) (Fin 1000)
   \<and> fst (renderFrame 128 64 False True 0 liveFiber (Some liveCanvas))
        = Threw (Error ''Could not get 2D context for export canvas'')
   \<and> r_pixelRatio (fib_renderer (fst (snd (renderFrame 128 64 False True 0 liveFiber (Some liveCanvas)))))
        = Fin 2
   \<and> scene_background (fib_scene (fst (snd (renderFrame 128 64 False True 0 liveFiber (Some liveCanvas)))))
        = Some 1"
proof -
  let ?ok = "renderFrame 128 64 True True 0 liveFiber (Some liveCanvas)"
  let ?bad = "renderFrame 128 64 False True 0 liveFiber (Some liveCanvas)"
  have ok: "fst ?ok \<noteq> Pending"
    by (simp add: renderFrame_def captureBody_def Let_def liveCanvas_def resizeComposer_def
        composerSetSize_def)
  have bad: "fst ?bad = Threw (Error ''Could not get 2D context for export canvas'')"
    by (simp add: renderFrame_def captureBody_def Let_def liveCanvas_def resizeComposer_def
        composerSetSize_def)
  then have bad': "fst ?bad \<noteq> Pending" by simp
  have okeq: "?ok = (fst ?ok, fst (snd ?ok), snd (snd ?ok))" by simp
  have badeq: "?bad = (fst ?bad, fst (snd ?bad), snd (snd ?bad))" by simp
  note a = renderFrame_restores_state [OF okeq ok]
  note b = renderFrame_restores_state [OF badeq bad']
  have differs: "fst (snd ?ok) \<noteq> liveFiber"
  proof
    assume "fst (snd ?ok) = liveFiber"
    then have "r_domElement (fib_renderer (fst (snd ?ok))) = r_domElement (fib_renderer liveFiber)"
      by simp
    then show False
      by (simp add: render_defs liveFiber_def liveCanvas_def liveRenderer_def liveCamera_def)
  qed
  from a have a1: "r_size (fib_renderer (fst (snd ?ok))) = (Fin 800, Fin 600)"
    and a2: "cam_projection (fib_camera (fst (snd ?ok)))
               = Orthographic (Fin (- 2)) (Fin 2) (Fin 1) (Fin (- 1)) (Fin (1 / 10)) (Fin 1000)"
    by (simp_all add: liveFiber_def liveRenderer_def liveCamera_def)
  from b have b1: "r_pixelRatio (fib_renderer (fst (snd ?bad))) = Fin 2"
    and b2: "scene_background (fib_scene (fst (snd ?bad))) = Some 1"
    by (simp_all add: liveFiber_def liveRenderer_def)
  from ok differs a1 a2 bad b1 b2 show ?thesis by blast
qed















text \<open>
  On its own, the batch loop does stop at an export that raises: the later angles are
  neither rotated to nor exported.
\<close>

lemma exportAngles_stops_on_raise:
  "onExportSequence animation frames (onRotateToAngle angleKey w) = (Threw e, w2) \<Longrightarrow>
   exportAngles onRotateToAngle onExportSequence animation frames n i (angleKey # others) ui w
     = (Threw e, ui\<lparr>me_currentAngle := Some angleKey\<rparr>, w2)"
  by (simp add: Let_def)

text \<open>
  With a canvas on the page, \<open>exportSequence\<close> never raises: what its \<open>try\<close> block
  raises ends in a toast.
\<close>

lemma exportSequence_catches:
  "w_canvas w \<noteq> None \<Longrightarrow> fst (exportSequence st animation frames w) \<noteq> Threw e"
  by (auto simp add: exportSequence_def Let_def
      split: option.splits prod.splits outcome.splits if_splits)

text \<open>
  C4 is not met by the code. The claim asks that a failed export of one angle ends the
  batch and that the report names the angle. \<open>handleExport\<close> does stop when
  \<open>onExportSequence\<close> raises, but \<open>exportSequence\<close> catches every failure of its
  \<open>try\<close> block and returns normally. In the run below the first frame of the first
  angle cannot be saved: the sequence reports the file in an error toast, the batch
  goes on to the second angle, exports it in full, and ends with the success toast for
  two angles.
\<close>

text \<open>
  A composer that holds a pass without \<open>setSize\<close> makes the capture raise, in the
  \<open>try\<close> block and again in the \<open>finally\<close> block.
\<close>

lemma renderFrame_pass_without_setSize:
  "fst (renderFrame 128 64 True True 0 liveFiber
          (Some (liveCanvas\<lparr>canvas_effectComposer :=
                   Some \<lparr>comp_size = (Fin 800, Fin 600), comp_pixelRatio = Fin 2,
                         comp_passes = [Some (Fin 1600, Fin 1200), None]\<rparr>\<rparr>)))
     = Threw passError"
  by (simp add: renderFrame_def captureBody_def resizeComposer_def composerSetSize_def Let_def
      liveCanvas_def)

text \<open>
  When an export raises an error that has no message, the batch reports the fallback
  text.
\<close>

lemma handleExport_fallback:
  "map toast_description
     (w_toasts (snd (snd (handleExport batchRotate (\<lambda>animation frames w. (Threw LoadEvent, w))
                            batchProps batchState batchWorld))))
     = [''Une erreur est survenue'']"
  by (simp add: handleExport_def canExport_def truthy_name_def batchProps_def batchState_def
      batchWorld_def batchRotate_def showToast_def Let_def)

theorem batch_continues_after_failed_angle:
  "fst batchRun = Returned ()
   \<and> map toast_title (w_toasts (snd (snd batchRun)))
       = [''Export Started'', ''Error'', ''Export Started'', ''Export Progress'',
          ''Export Progress'', ''Creating Sprite Sheet'', ''Creating Sprite Sheet'',
          ''Sprite Sheet Exported'', ''Export Complete'', ''Export termin'' @ e_acute]
   \<and> toast_description (w_toasts (snd (snd batchRun)) ! 1)
       = ''Failed to export sequence: Failed to save file: out/walk/frame_0000.png''
   \<and> w_dirs (snd (snd batchRun)) = [''out/walk'', ''out/walk'']
   \<and> w_frameChanges (snd (snd batchRun)) = [0, 0, 1, 0, 1]
   \<and> map fst (w_files (snd (snd batchRun)))
       = [''out/walk/frame_0000.png'', ''out/walk/frame_0001.png'',
          ''out/walk_spritesheet_2x1.png'']"
  by (simp add: batch_defs export_defs render_defs Let_def cols2 rows2 grid_of_two plan21
      show_values show_small sanitize_walk)

end
